theory Spec2Isabelle
  imports Complex_Main
begin

section \<open>Values, exceptions and the observable world\<close>

text \<open>
  The module \<^verbatim>\<open>HPOlibExperimentUtils/core/optimizer.py\<close> holds three classes:
  \<^verbatim>\<open>Optimizer\<close>, \<^verbatim>\<open>BOHBOptimizer\<close> and \<^verbatim>\<open>SMACOptimizer\<close>. Almost every
  statement of it is a call into a collaborator (the benchmark adapter, hpbandster, SMAC,
  the logger). The embedding keeps the statements of the module in their order and makes
  each collaborator call an entry of a call log, answered by a record of canned
  behaviours (\<open>fakes\<close>): what the call returns and whether it raises.
\<close>

datatype exn =
    TimeoutException
  | ValueError string
  | KeyError string
  | TypeError string
  | IndexError
  | OverflowError
  | OtherException string

text \<open>
  Python values that travel through the module. Numbers are only passed on, never
  computed with, and are carried as integers; \<open>PathV\<close> is a \<^verbatim>\<open>pathlib.Path\<close> and
  holds the path's normalised text (see \<open>py_Path\<close>); \<open>ObjV\<close> is an opaque object (a
  configuration space, a configuration, an iteration's data) named by a label.
\<close>

datatype val =
    NoneV
  | BoolV bool
  | IntV int
  | StrV string
  | PathV string
  | ObjV string

type_synonym dict = "(string \<times> val) list"

text \<open>The members of \<^verbatim>\<open>OptimizerEnum\<close>; the module names two of them.\<close>

datatype OptimizerEnum = HYPERBAND | SUCCESSIVE_HALVING | OTHER_MEMBER string

text \<open>
  The attribute \<^verbatim>\<open>self.intensifier\<close> holds what the caller passed, or, after
  \<^verbatim>\<open>SMACOptimizer.__init__\<close>, one of the two SMAC intensifier classes.
\<close>

datatype intensifier_val = EnumMember OptimizerEnum | Hyperband | SuccessiveHalving

text \<open>The object \<^verbatim>\<open>hpres.Result(data, config)\<close>.\<close>

datatype result = Result (res_data: "val list") (res_config: val)

text \<open>
  One entry of the call log per call into a collaborator, with its arguments. The result
  logger handed to \<^verbatim>\<open>BOHB(...)\<close> is named by the directory it was created on (the
  last argument of \<open>BOHBInit\<close>).
\<close>

datatype event =
    GetConfigurationSpace val
  | JsonResultLogger string bool
  | NameServerInit string string string
  | NameServerStart
  | CustomWorkerInit val dict val val string
  | WorkerRun bool
  | BOHBInit val string val val val val val val string
  | MasterRun val
  | FixTimestamps val val
  | ResultInit "val list" val
  | LogInfo string
  | LogIncumbent val val
  | MasterShutdown bool
  | NsShutdown
  | GetId2ConfigMapping
  | GetIncumbentId
  | GetRunsById val
  | ScenarioInit dict
  | RandomState val
  | SMAC4HPOInit dict val intensifier_val dict
  | Time
  | Optimize
  | SolverIncumbent
  | LogFinished int val
  | ObjectiveFunction val dict

text \<open>
  The collaborators. \<open>raises\<close> decides, from the calls made so far and the call being
  made, whether that call raises; the other fields are what the calls return.
  \<open>get_number_ta_runs\<close> and \<open>parse_fidelity_type\<close> are functions of this repository
  (module \<^verbatim>\<open>utils.optimizer_utils\<close>) whose source is not part of the module under
  study: they are parameters here.
\<close>

record fakes =
  raises :: "event list \<Rightarrow> event \<Rightarrow> exn option"
  str_of :: "val \<Rightarrow> string"
  configuration_space :: val
  ns_address :: "val \<times> val"
  run_duration :: rat
  run_result :: "result option"
  warmstart_iteration :: "val list"
  iterations :: "val list"
  time_ref :: val
  master_config :: val
  fix_timestamps :: "val \<Rightarrow> val \<Rightarrow> val"
  id2config_mapping :: "result \<Rightarrow> (val \<times> dict) list"
  incumbent_id :: "result \<Rightarrow> val"
  runs_by_id :: "result \<Rightarrow> val \<Rightarrow> dict list"
  get_number_ta_runs :: "val \<Rightarrow> val \<Rightarrow> val \<Rightarrow> val \<Rightarrow> exn + val"
  smac_output_dir :: "dict \<Rightarrow> string"
  incumbent_after :: val
  time_at :: "event list \<Rightarrow> rat"
  parse_fidelity_type :: "val \<Rightarrow> exn + (val \<Rightarrow> exn + val)"
  objective_function :: "val \<Rightarrow> dict \<Rightarrow> dict"

record world =
  trace :: "event list"

text \<open>The instance attributes set by \<^verbatim>\<open>Optimizer.__init__\<close> (and \<^verbatim>\<open>run_id\<close>).\<close>

record optimizer =
  benchmark :: val
  cs :: val
  rng :: val
  optimizer_settings :: dict
  benchmark_settings :: dict
  intensifier :: intensifier_val
  run_id :: string

record run_state = world +
  self :: optimizer

subsection \<open>Statements that may raise\<close>

type_synonym ('s, 'a) prog = "'s \<Rightarrow> (exn + 'a) \<times> 's"

definition ret :: "'a \<Rightarrow> ('s, 'a) prog" where
  "ret x = (\<lambda>s. (Inr x, s))"

definition raise :: "exn \<Rightarrow> ('s, 'a) prog" where
  "raise e = (\<lambda>s. (Inl e, s))"

definition seq :: "('s, 'a) prog \<Rightarrow> ('a \<Rightarrow> ('s, 'b) prog) \<Rightarrow> ('s, 'b) prog" where
  "seq m f = (\<lambda>s. case m s of (Inl e, s') \<Rightarrow> (Inl e, s') | (Inr x, s') \<Rightarrow> f x s')"

definition lift :: "exn + 'a \<Rightarrow> ('s, 'a) prog" where
  "lift r = (\<lambda>s. (r, s))"

text \<open>A call into a collaborator: it is logged, then raises or returns.\<close>

definition call :: "fakes \<Rightarrow> event \<Rightarrow> ('a world_scheme, unit) prog" where
  "call fk ev = (\<lambda>s.
     ((case raises fk (trace s) ev of Some e \<Rightarrow> Inl e | None \<Rightarrow> Inr ()),
      s\<lparr>trace := trace s @ [ev]\<rparr>))"

text \<open>A step that is logged and cannot raise (an attribute read).\<close>

definition note_step :: "event \<Rightarrow> ('a world_scheme, unit) prog" where
  "note_step ev = (\<lambda>s. (Inr (), s\<lparr>trace := trace s @ [ev]\<rparr>))"

text \<open>\<^verbatim>\<open>d[k]\<close> on a dict: the first entry under the key, or \<^verbatim>\<open>KeyError\<close>.\<close>

definition getitem :: "dict \<Rightarrow> string \<Rightarrow> exn + val" where
  "getitem d k = (case map_of d k of None \<Rightarrow> Inl (KeyError k) | Some v \<Rightarrow> Inr v)"

text \<open>The decimal text of an integer, as \<^verbatim>\<open>str\<close> prints it.\<close>

function show_nat :: "nat \<Rightarrow> string" where
  "show_nat n =
     (if n < 10 then [''0123456789'' ! n]
      else show_nat (n div 10) @ [''0123456789'' ! (n mod 10)])"
  by pat_completeness auto
termination
  by (relation "measure id") auto

declare show_nat.simps [simp del]

definition show_int :: "int \<Rightarrow> string" where
  "show_int i = (if i < 0 then CHR ''-'' # show_nat (nat (- i)) else show_nat (nat i))"

text \<open>
  \<^verbatim>\<open>str(x)\<close>: a string and a path print as their text, an integer in decimal,
  \<^verbatim>\<open>None\<close> and the booleans by name; an opaque object prints as its own
  \<^verbatim>\<open>__str__\<close> says.
\<close>

definition py_str :: "fakes \<Rightarrow> val \<Rightarrow> string" where
  "py_str fk v =
     (case v of
        StrV s \<Rightarrow> s
      | PathV s \<Rightarrow> s
      | IntV i \<Rightarrow> show_int i
      | BoolV b \<Rightarrow> (if b then ''True'' else ''False'')
      | NoneV \<Rightarrow> ''None''
      | ObjV _ \<Rightarrow> str_of fk v)"

text \<open>
  \<^verbatim>\<open>Path(s)\<close> on a POSIX system: the text is cut at the slashes, empty components
  and \<^verbatim>\<open>.\<close> components are dropped (\<^verbatim>\<open>..\<close> is kept), a leading slash is the root
  (exactly two leading slashes are kept as they are), and the path with no component and
  no root is \<^verbatim>\<open>.\<close>.
\<close>

fun split_slash :: "string \<Rightarrow> string list" where
  "split_slash [] = [[]]"
| "split_slash (c # rest) =
     (if c = CHR ''/'' then [] # split_slash rest
      else (case split_slash rest of [] \<Rightarrow> [[c]] | p # ps \<Rightarrow> (c # p) # ps))"

fun join_slash :: "string list \<Rightarrow> string" where
  "join_slash [] = []"
| "join_slash [p] = p"
| "join_slash (p # q # ps) = p @ CHR ''/'' # join_slash (q # ps)"

definition path_root :: "string \<Rightarrow> string" where
  "path_root s =
     (let k = length (takeWhile (\<lambda>c. c = CHR ''/'') s)
      in if k = 0 then [] else if k = 2 then ''//'' else ''/'')"

definition path_text :: "string \<Rightarrow> string" where
  "path_text s =
     (let parts = filter (\<lambda>p. p \<noteq> [] \<and> p \<noteq> ''.'') (split_slash s);
          text = path_root s @ join_slash parts
      in if text = [] then ''.'' else text)"

definition py_Path :: "string \<Rightarrow> val" where
  "py_Path s = PathV (path_text s)"

text \<open>\<^verbatim>\<open>int(x)\<close> on a float: truncation towards zero.\<close>

definition py_int :: "rat \<Rightarrow> int" where
  "py_int x = (if 0 \<le> x then \<lfloor>x\<rfloor> else \<lceil>x\<rceil>)"

section \<open>The constructors\<close>

text \<open>
  \<^verbatim>\<open>Optimizer.__init__\<close> (lines 22-28): the one call is
  \<^verbatim>\<open>benchmark.get_configuration_space()\<close>.
\<close>

definition Optimizer_init ::
  "fakes \<Rightarrow> val \<Rightarrow> dict \<Rightarrow> dict \<Rightarrow> OptimizerEnum \<Rightarrow> val \<Rightarrow> (world, optimizer) prog" where
  "Optimizer_init fk bench opt_settings bench_settings intens rng0 =
     seq (call fk (GetConfigurationSpace bench)) (\<lambda>_.
     ret \<lparr>benchmark = bench, cs = configuration_space fk, rng = rng0,
          optimizer_settings = opt_settings, benchmark_settings = bench_settings,
          intensifier = EnumMember intens, run_id = []\<rparr>)"

text \<open>\<^verbatim>\<open>BOHBOptimizer.__init__\<close> (lines 38-40).\<close>

definition BOHBOptimizer_init ::
  "fakes \<Rightarrow> val \<Rightarrow> dict \<Rightarrow> dict \<Rightarrow> OptimizerEnum \<Rightarrow> val \<Rightarrow> (world, optimizer) prog" where
  "BOHBOptimizer_init fk bench opt_settings bench_settings intens rng0 =
     seq (Optimizer_init fk bench opt_settings bench_settings intens rng0) (\<lambda>obj.
     ret (obj\<lparr>run_id := ''BOHB_optimization_seed_'' @ py_str fk (rng obj)\<rparr>))"

text \<open>\<^verbatim>\<open>SMACOptimizer.__init__\<close> (lines 97-106).\<close>

definition SMACOptimizer_init ::
  "fakes \<Rightarrow> val \<Rightarrow> dict \<Rightarrow> dict \<Rightarrow> OptimizerEnum \<Rightarrow> val \<Rightarrow> (world, optimizer) prog" where
  "SMACOptimizer_init fk bench opt_settings bench_settings intens rng0 =
     seq (Optimizer_init fk bench opt_settings bench_settings intens rng0) (\<lambda>obj.
     if intens = HYPERBAND then ret (obj\<lparr>intensifier := Hyperband\<rparr>)
     else if intens = SUCCESSIVE_HALVING then ret (obj\<lparr>intensifier := SuccessiveHalving\<rparr>)
     else raise (ValueError ''Currently no other intensifier is supported''))"

section \<open>The deadline guard\<close>

text \<open>
  Modelled from the spec: the context manager \<^verbatim>\<open>time_limit\<close> of
  \<^verbatim>\<open>HPOlibExperimentUtils.utils.utils\<close>, whose source is missing. The spec's contract
  (section 4.1): it executes the callable to completion or signals the deadline-exceeded
  condition once \<open>deadline_seconds\<close> have elapsed, whichever comes first; a callable that
  completes exactly at the boundary has returned, and the deadline does not fire after
  it. The callable is given by the time it takes and what it then yields; the guard
  yields the time at which it is left and what it yields.
\<close>

definition time_limit :: "rat \<Rightarrow> rat \<times> (exn + 'a) \<Rightarrow> rat \<times> (exn + 'a)" where
  "time_limit deadline_seconds callable =
     (if fst callable \<le> deadline_seconds then callable
      else (deadline_seconds, Inl TimeoutException))"

text \<open>
  Modelled from the spec: the guard takes its deadline in seconds; a setting that is not
  a number is a type error of the guard.
\<close>

definition seconds_of :: "val \<Rightarrow> exn + rat" where
  "seconds_of v = (case v of IntV n \<Rightarrow> Inr (of_int n)
                   | _ \<Rightarrow> Inl (TypeError ''an integer is required''))"

section \<open>\<^verbatim>\<open>BOHBOptimizer.run\<close>\<close>

definition self_setting :: "string \<Rightarrow> (run_state, val) prog" where
  "self_setting k = (\<lambda>s. (getitem (optimizer_settings (self s)) k, s))"

definition bench_setting :: "string \<Rightarrow> (run_state, val) prog" where
  "bench_setting k = (\<lambda>s. (getitem (benchmark_settings (self s)) k, s))"

definition self_attr :: "(optimizer \<Rightarrow> 'a) \<Rightarrow> (run_state, 'a) prog" where
  "self_attr f = (\<lambda>s. (Inr (f (self s)), s))"

text \<open>Lines 46-69: result logger, name server, worker, master.\<close>

definition bohb_setup :: "fakes \<Rightarrow> (run_state, unit) prog" where
  "bohb_setup fk =
     seq (self_setting ''output_dir'') (\<lambda>od.
     seq (call fk (JsonResultLogger (py_str fk od) True)) (\<lambda>_.
     seq (self_attr run_id) (\<lambda>rid.
     seq (self_setting ''output_dir'') (\<lambda>od2.
     seq (call fk (NameServerInit rid ''localhost'' (py_str fk od2))) (\<lambda>_.
     seq (call fk NameServerStart) (\<lambda>_.
     seq (self_attr benchmark) (\<lambda>bench.
     seq (self_attr benchmark_settings) (\<lambda>bs.
     seq (call fk (CustomWorkerInit bench bs (fst (ns_address fk)) (snd (ns_address fk)) rid)) (\<lambda>_.
     seq (call fk (WorkerRun True)) (\<lambda>_.
     seq (self_attr cs) (\<lambda>space.
     seq (self_setting ''eta'') (\<lambda>eta.
     seq (self_setting ''min_budget'') (\<lambda>min_budget.
     seq (self_setting ''max_budget'') (\<lambda>max_budget.
     call fk (BOHBInit space rid (fst (ns_address fk)) (fst (ns_address fk))
                (snd (ns_address fk)) eta min_budget max_budget (py_str fk od))))))))))))))))"

text \<open>
  \<^verbatim>\<open>master.run(n_iterations=n)\<close>, as a callable for the guard: the call is logged; it
  takes \<open>run_duration\<close> and then returns the engine's result or raises.
\<close>

definition master_run ::
  "fakes \<Rightarrow> val \<Rightarrow> run_state \<Rightarrow> (rat \<times> (exn + result option)) \<times> run_state" where
  "master_run fk n = (\<lambda>s.
     ((run_duration fk,
       (case raises fk (trace s) (MasterRun n) of Some e \<Rightarrow> Inl e
        | None \<Rightarrow> Inr (run_result fk))),
      s\<lparr>trace := trace s @ [MasterRun n]\<rparr>))"

text \<open>Lines 73-74: the body of the \<^verbatim>\<open>try\<close>.\<close>

definition guarded_run :: "fakes \<Rightarrow> (run_state, result option) prog" where
  "guarded_run fk =
     seq (self_setting ''time_limit_in_s'') (\<lambda>tl.
     seq (lift (seconds_of tl)) (\<lambda>deadline.
     seq (self_setting ''num_iterations'') (\<lambda>n.
     (\<lambda>s. case master_run fk n s of (callable, s') \<Rightarrow>
            (snd (time_limit deadline callable), s')))))"

text \<open>Lines 76-77: the loop over \<^verbatim>\<open>master.warmstart_iteration\<close>; it yields the
  iterations' data after the calls.\<close>

fun fix_all :: "fakes \<Rightarrow> val \<Rightarrow> val list \<Rightarrow> (run_state, val list) prog" where
  "fix_all fk tref [] s = (Inr [], s)"
| "fix_all fk tref (it # its) s =
     (case call fk (FixTimestamps it tref) s of
        (Inl e, s') \<Rightarrow> (Inl e, s')
      | (Inr _, s') \<Rightarrow>
          (case fix_all fk tref its s' of
             (Inl e, s'') \<Rightarrow> (Inl e, s'')
           | (Inr rest, s'') \<Rightarrow> (Inr (fix_timestamps fk tref it # rest), s'')))"

text \<open>Lines 76-80: the handler of \<^verbatim>\<open>except TimeoutException\<close>.
  \<^verbatim>\<open>deepcopy\<close> of an iteration's data is that data.\<close>

definition recover :: "fakes \<Rightarrow> (run_state, result option) prog" where
  "recover fk =
     seq (fix_all fk (time_ref fk) (warmstart_iteration fk)) (\<lambda>ws_data.
     seq (call fk (ResultInit (iterations fk @ ws_data) (master_config fk))) (\<lambda>_.
     seq (call fk (LogInfo ''WALLCLOCK LIMIT REACHED'')) (\<lambda>_.
     ret (Some (Result (iterations fk @ ws_data) (master_config fk))))))"

definition except_timeout :: "('s, 'a) prog \<Rightarrow> ('s, 'a) prog \<Rightarrow> ('s, 'a) prog" where
  "except_timeout body handler = (\<lambda>s.
     case body s of
       (Inl e, s') \<Rightarrow> (if e = TimeoutException then handler s' else (Inl e, s'))
     | (Inr x, s') \<Rightarrow> (Inr x, s'))"

text \<open>Lines 72-80.\<close>

definition bohb_optimize :: "fakes \<Rightarrow> (run_state, result option) prog" where
  "bohb_optimize fk = except_timeout (guarded_run fk) (recover fk)"

text \<open>Lines 82-83.\<close>

definition bohb_teardown :: "fakes \<Rightarrow> (run_state, unit) prog" where
  "bohb_teardown fk =
     seq (call fk (MasterShutdown True)) (\<lambda>_. call fk NsShutdown)"

text \<open>\<^verbatim>\<open>xs[-1]\<close>.\<close>

definition last_item :: "'a list \<Rightarrow> exn + 'a" where
  "last_item xs = (if xs = [] then Inl IndexError else Inr (last xs))"

definition lookup_id :: "fakes \<Rightarrow> (val \<times> dict) list \<Rightarrow> val \<Rightarrow> exn + dict" where
  "lookup_id fk m k = (case map_of m k of None \<Rightarrow> Inl (KeyError (py_str fk k))
                       | Some d \<Rightarrow> Inr d)"

text \<open>
  The format specification \<^verbatim>\<open>.2f\<close> applies to numbers only. An integer is converted
  to a double first, which overflows from \<open>2 ^ 1024 - 2 ^ 970\<close> on (the least integer that
  rounds to \<open>2 ^ 1024\<close>).
\<close>

definition format_2f :: "val \<Rightarrow> exn + unit" where
  "format_2f v =
     (case v of
        IntV n \<Rightarrow> (if \<bar>n\<bar> < 2 ^ 1024 - 2 ^ 970 then Inr () else Inl OverflowError)
      | BoolV _ \<Rightarrow> Inr ()
      | StrV _ \<Rightarrow> Inl (ValueError ''Unknown format code'')
      | _ \<Rightarrow> Inl (TypeError ''unsupported format string''))"

text \<open>Lines 85-91.\<close>

definition bohb_report :: "fakes \<Rightarrow> result option \<Rightarrow> (run_state, unit) prog" where
  "bohb_report fk res =
     (case res of
        None \<Rightarrow> ret ()
      | Some r \<Rightarrow>
          seq (call fk GetId2ConfigMapping) (\<lambda>_.
          seq (call fk GetIncumbentId) (\<lambda>_.
          seq (call fk (GetRunsById (incumbent_id fk r))) (\<lambda>_.
          seq (lift (last_item (runs_by_id fk r (incumbent_id fk r)))) (\<lambda>run.
          seq (lift (getitem run ''loss'')) (\<lambda>inc_value.
          seq (lift (lookup_id fk (id2config_mapping fk r) (incumbent_id fk r))) (\<lambda>entry.
          seq (lift (getitem entry ''config'')) (\<lambda>inc_cfg.
          seq (lift (format_2f inc_value)) (\<lambda>_.
          call fk (LogIncumbent inc_cfg inc_value))))))))))"

text \<open>Lines 45-93.\<close>

definition bohb_run :: "fakes \<Rightarrow> (run_state, val) prog" where
  "bohb_run fk =
     seq (bohb_setup fk) (\<lambda>_.
     seq (bohb_optimize fk) (\<lambda>res.
     seq (bohb_teardown fk) (\<lambda>_.
     seq (bohb_report fk res) (\<lambda>_.
     self_setting ''output_dir''))))"

section \<open>\<^verbatim>\<open>SMACOptimizer.run\<close>\<close>

text \<open>
  Lines 129-134: the objective wrapper. A keyword must be a string, and a keyword given
  twice in one call is a type error.
\<close>

definition merge_kwargs :: "val \<Rightarrow> val \<Rightarrow> dict \<Rightarrow> exn + dict" where
  "merge_kwargs name v settings =
     (case name of
        StrV k \<Rightarrow>
          (if k \<in> set (map fst settings)
           then Inl (TypeError ''got multiple values for keyword argument'')
           else Inr ((k, v) # settings))
      | _ \<Rightarrow> Inl (TypeError ''keywords must be strings''))"

definition optimization_function_wrapper ::
  "fakes \<Rightarrow> val \<Rightarrow> val \<Rightarrow> val \<Rightarrow> val \<Rightarrow> (run_state, val) prog" where
  "optimization_function_wrapper fk cfg seed instance budget =
     seq (bench_setting ''fidelity_type'') (\<lambda>ft.
     seq (lift (parse_fidelity_type fk ft)) (\<lambda>fidelity_type.
     seq (bench_setting ''fidelity_name'') (\<lambda>name.
     seq (lift (fidelity_type budget)) (\<lambda>b.
     seq (self_attr benchmark_settings) (\<lambda>bs.
     seq (lift (merge_kwargs name b bs)) (\<lambda>kwargs.
     seq (self_attr benchmark) (\<lambda>bench.
     seq (call fk (ObjectiveFunction cfg kwargs)) (\<lambda>_.
     lift (getitem (objective_function fk cfg kwargs) ''function_value'')))))))))"

text \<open>\<^verbatim>\<open>time()\<close>.\<close>

definition py_time :: "fakes \<Rightarrow> ('a world_scheme, rat) prog" where
  "py_time fk = (\<lambda>s. (Inr (time_at fk (trace s)), s\<lparr>trace := trace s @ [Time]\<rparr>))"

text \<open>
  \<^verbatim>\<open>try: body finally: fin\<close>, where \<open>fin\<close> binds a name used afterwards: \<open>fin\<close> runs
  whatever \<open>body\<close> did; an exception of \<open>fin\<close> replaces the one of \<open>body\<close>.
\<close>

definition try_finally :: "('s, 'a) prog \<Rightarrow> ('s, 'b) prog \<Rightarrow> ('s, 'b) prog" where
  "try_finally body fin = (\<lambda>s.
     case body s of (r, s1) \<Rightarrow>
       (case fin s1 of
          (Inl e, s2) \<Rightarrow> (Inl e, s2)
        | (Inr y, s2) \<Rightarrow> (case r of Inl e \<Rightarrow> (Inl e, s2) | Inr _ \<Rightarrow> (Inr y, s2))))"

text \<open>Line 148: \<^verbatim>\<open>smac.solver.incumbent\<close>, an attribute read.\<close>

definition read_incumbent :: "fakes \<Rightarrow> (run_state, val) prog" where
  "read_incumbent fk = seq (note_step SolverIncumbent) (\<lambda>_. ret (incumbent_after fk))"

text \<open>Lines 117-126.\<close>

definition scenario_dict ::
  "val \<Rightarrow> val \<Rightarrow> val \<Rightarrow> val \<Rightarrow> val \<Rightarrow> string \<Rightarrow> dict" where
  "scenario_dict wallclock space number_ta_runs cutoff mem out =
     [(''run_obj'', StrV ''quality''),
      (''wallclock-limit'', wallclock),
      (''cs'', space),
      (''deterministic'', StrV ''true''),
      (''limit_resources'', BoolV True),
      (''runcount-limit'', number_ta_runs),
      (''cutoff'', cutoff),
      (''memory_limit'', mem),
      (''output_dir'', StrV out)]"

text \<open>
  Lines 112-143: run-count cap, scenario, engine. \<^verbatim>\<open>get_number_ta_runs\<close> is called
  first, as soon as its four arguments are read, and may raise.
\<close>

definition smac_setup :: "fakes \<Rightarrow> (run_state, dict) prog" where
  "smac_setup fk =
     seq (self_setting ''num_iterations'') (\<lambda>n.
     seq (self_setting ''min_budget'') (\<lambda>min_budget.
     seq (self_setting ''max_budget'') (\<lambda>max_budget.
     seq (self_setting ''eta'') (\<lambda>eta.
     seq (lift (get_number_ta_runs fk n min_budget max_budget eta)) (\<lambda>number_ta_runs.
     seq (self_setting ''time_limit_in_s'') (\<lambda>wallclock.
     seq (self_attr cs) (\<lambda>space.
     seq (self_setting ''cutoff_in_s'') (\<lambda>cutoff.
     seq (self_setting ''mem_limit_in_mb'') (\<lambda>mem.
     seq (self_setting ''output_dir'') (\<lambda>od.
     seq (ret (scenario_dict wallclock space number_ta_runs cutoff mem
                (py_str fk od))) (\<lambda>sd.
     seq (call fk (ScenarioInit sd)) (\<lambda>_.
     seq (self_attr rng) (\<lambda>seed.
     seq (call fk (RandomState seed)) (\<lambda>_.
     seq (self_attr intensifier) (\<lambda>intens.
     seq (self_setting ''min_budget'') (\<lambda>initial_budget.
     seq (self_setting ''max_budget'') (\<lambda>max_budget2.
     seq (self_setting ''eta'') (\<lambda>eta2.
     seq (call fk (SMAC4HPOInit sd seed intens
            [(''initial_budget'', initial_budget), (''max_budget'', max_budget2),
             (''eta'', eta2)])) (\<lambda>_.
     ret sd)))))))))))))))))))"

text \<open>Lines 111-152.\<close>

definition smac_run :: "fakes \<Rightarrow> (run_state, val) prog" where
  "smac_run fk =
     seq (smac_setup fk) (\<lambda>sd.
     seq (py_time fk) (\<lambda>start_time.
     seq (try_finally (call fk Optimize) (read_incumbent fk)) (\<lambda>incumbent.
     seq (py_time fk) (\<lambda>end_time.
     seq (call fk (LogFinished (py_int (end_time - start_time)) incumbent)) (\<lambda>_.
     ret (py_Path (smac_output_dir fk sd)))))))"

section \<open>A concrete set of collaborators\<close>

text \<open>
  Canned collaborators in which no call raises, a well-formed pair of settings mappings,
  and an optimizer object over them. The engine of \<open>demo_fakes\<close> writes its artifacts
  to a run directory below the scenario's output directory.
\<close>

definition demo_fakes :: fakes where
  "demo_fakes =
     \<lparr>raises = (\<lambda>_ _. None),
      str_of = (\<lambda>_. ''object''),
      configuration_space = ObjV ''cs'',
      ns_address = (StrV ''127.0.0.1'', IntV 9090),
      run_duration = 5,
      run_result = Some (Result [ObjV ''d0''] (ObjV ''configs'')),
      warmstart_iteration = [ObjV ''w0'', ObjV ''w1''],
      iterations = [ObjV ''d0''],
      time_ref = IntV 100,
      master_config = ObjV ''configs'',
      fix_timestamps = (\<lambda>_ d. case d of ObjV n \<Rightarrow> ObjV (n @ ''_fixed'') | _ \<Rightarrow> d),
      id2config_mapping = (\<lambda>_. [(IntV 0, [(''config'', ObjV ''c0'')])]),
      incumbent_id = (\<lambda>_. IntV 0),
      runs_by_id = (\<lambda>_ _. [[(''loss'', IntV 1)]]),
      get_number_ta_runs = (\<lambda>_ _ _ _. Inr (IntV 40)),
      smac_output_dir = (\<lambda>sd. case map_of sd ''output_dir'' of
                                 Some (StrV d) \<Rightarrow> d @ ''/run_1'' | _ \<Rightarrow> ''smac3-output''),
      incumbent_after = ObjV ''c0'',
      time_at = (\<lambda>tr. of_nat (length tr)),
      parse_fidelity_type = (\<lambda>v.
         if v = StrV ''int''
         then Inr (\<lambda>b. case b of IntV n \<Rightarrow> Inr (IntV n)
                         | BoolV t \<Rightarrow> Inr (IntV (if t then 1 else 0))
                         | _ \<Rightarrow> Inl (TypeError ''int() argument''))
         else if v = StrV ''str''
         then Inr (\<lambda>b. case b of IntV n \<Rightarrow> Inr (StrV (show_int n))
                         | StrV t \<Rightarrow> Inr (StrV t)
                         | _ \<Rightarrow> Inl (TypeError ''str() argument''))
         else Inl (ValueError ''unknown fidelity type'')),
      objective_function = (\<lambda>_ _. [(''function_value'', IntV 3), (''cost'', IntV 1)])\<rparr>"

definition demo_settings :: dict where
  "demo_settings =
     [(''output_dir'', PathV ''out''), (''time_limit_in_s'', IntV 10),
      (''cutoff_in_s'', IntV 5), (''mem_limit_in_mb'', IntV 1000),
      (''num_iterations'', IntV 4), (''min_budget'', IntV 1),
      (''max_budget'', IntV 27), (''eta'', IntV 3)]"

definition demo_benchmark_settings :: dict where
  "demo_benchmark_settings =
     [(''fidelity_name'', StrV ''epochs''), (''fidelity_type'', StrV ''int'')]"

definition demo_self :: optimizer where
  "demo_self =
     \<lparr>benchmark = ObjV ''bench'', cs = ObjV ''cs'', rng = IntV 0,
      optimizer_settings = demo_settings, benchmark_settings = demo_benchmark_settings,
      intensifier = Hyperband, run_id = ''BOHB_optimization_seed_0''\<rparr>"

definition demo_state :: run_state where
  "demo_state = \<lparr>trace = [], self = demo_self\<rparr>"

text \<open>The engine fails inside \<^verbatim>\<open>master.run\<close> with an error of its own.\<close>

definition engine_failure_fakes :: fakes where
  "engine_failure_fakes =
     demo_fakes\<lparr>raises := (\<lambda>_ ev. case ev of
        MasterRun _ \<Rightarrow> Some (OtherException ''engine failure'') | _ \<Rightarrow> None)\<rparr>"

text \<open>\<^verbatim>\<open>master.shutdown\<close> fails.\<close>

definition shutdown_failure_fakes :: fakes where
  "shutdown_failure_fakes =
     demo_fakes\<lparr>raises := (\<lambda>_ ev. case ev of
        MasterShutdown _ \<Rightarrow> Some (OtherException ''shutdown failure'') | _ \<Rightarrow> None)\<rparr>"

text \<open>The engine needs twenty seconds, twice the limit of \<open>demo_settings\<close>.\<close>

definition slow_fakes :: fakes where
  "slow_fakes = demo_fakes\<lparr>run_duration := 20\<rparr>"

text \<open>\<^verbatim>\<open>smac.optimize()\<close> fails.\<close>

definition optimize_failure_fakes :: fakes where
  "optimize_failure_fakes =
     demo_fakes\<lparr>raises := (\<lambda>_ ev. case ev of
        Optimize \<Rightarrow> Some (OtherException ''optimize failure'') | _ \<Rightarrow> None)\<rparr>"

text \<open>The adapter's \<^verbatim>\<open>get_configuration_space()\<close> fails.\<close>

definition adapter_failure_fakes :: fakes where
  "adapter_failure_fakes =
     demo_fakes\<lparr>raises := (\<lambda>_ ev. case ev of
        GetConfigurationSpace _ \<Rightarrow> Some (OtherException ''adapter failure'') | _ \<Rightarrow> None)\<rparr>"

text \<open>
  The engine is interrupted before any iteration has begun: there is no iteration, no
  warm-start iteration, and the merged result has no run and no incumbent.
\<close>

definition empty_slow_fakes :: fakes where
  "empty_slow_fakes =
     slow_fakes\<lparr>warmstart_iteration := [], iterations := [],
       id2config_mapping := (\<lambda>_. []), incumbent_id := (\<lambda>_. NoneV),
       runs_by_id := (\<lambda>_ _. [])\<rparr>"

text \<open>Benchmark settings in which the fidelity's own name is also a pass-through key.\<close>

definition clash_state :: run_state where
  "clash_state =
     \<lparr>trace = [],
      self = demo_self\<lparr>benchmark_settings :=
        [(''fidelity_name'', StrV ''epochs''), (''fidelity_type'', StrV ''int''),
         (''epochs'', IntV 5)]\<rparr>\<rparr>"

text \<open>Benchmark settings whose fidelity is a string.\<close>

definition str_state :: run_state where
  "str_state =
     \<lparr>trace = [],
      self = demo_self\<lparr>benchmark_settings :=
        [(''fidelity_name'', StrV ''subset''), (''fidelity_type'', StrV ''str'')]\<rparr>\<rparr>"

text \<open>The calls that build a scenario, start an engine or a process.\<close>

fun starts_resource :: "event \<Rightarrow> bool" where
  "starts_resource (JsonResultLogger _ _) = True"
| "starts_resource (NameServerInit _ _ _) = True"
| "starts_resource NameServerStart = True"
| "starts_resource (CustomWorkerInit _ _ _ _ _) = True"
| "starts_resource (WorkerRun _) = True"
| "starts_resource (BOHBInit _ _ _ _ _ _ _ _ _) = True"
| "starts_resource (MasterRun _) = True"
| "starts_resource (ScenarioInit _) = True"
| "starts_resource (RandomState _) = True"
| "starts_resource (SMAC4HPOInit _ _ _ _) = True"
| "starts_resource Optimize = True"
| "starts_resource _ = False"

section \<open>Auxiliary notions\<close>

text \<open>A statement that leaves the attributes of \<^verbatim>\<open>self\<close> as they are.\<close>

definition keeps_self :: "(run_state, 'a) prog \<Rightarrow> bool" where
  "keeps_self p = (\<forall>s. self (snd (p s)) = self s)"

text \<open>A statement that only adds to the call log.\<close>

definition grows :: "(run_state, 'a) prog \<Rightarrow> bool" where
  "grows p = (\<forall>s. \<exists>ext. trace (snd (p s)) = trace s @ ext)"

text \<open>Collaborators none of whose calls raises.\<close>

definition quiet :: "fakes \<Rightarrow> bool" where
  "quiet fk = (\<forall>tr ev. raises fk tr ev = None)"

section \<open>Sequencing and the frame of \<^verbatim>\<open>self\<close>\<close>

lemma seq_Inr: "m s = (Inr x, s') \<Longrightarrow> seq m f s = f x s'"
  by (simp add: seq_def)

lemma seq_Inl: "m s = (Inl e, s') \<Longrightarrow> seq m f s = (Inl e, s')"
  by (simp add: seq_def)

lemma keeps_self_ret: "keeps_self (ret x)"
  by (simp add: keeps_self_def ret_def)

lemma keeps_self_raise: "keeps_self (raise e)"
  by (simp add: keeps_self_def raise_def)

lemma keeps_self_lift: "keeps_self (lift r)"
  by (simp add: keeps_self_def lift_def)

lemma keeps_self_call: "keeps_self (call fk ev)"
  by (simp add: keeps_self_def call_def)

lemma keeps_self_note: "keeps_self (note_step ev)"
  by (simp add: keeps_self_def note_step_def)

lemma keeps_self_time: "keeps_self (py_time fk)"
  by (simp add: keeps_self_def py_time_def)

lemma keeps_self_setting: "keeps_self (self_setting k)"
  by (simp add: keeps_self_def self_setting_def)

lemma keeps_self_bench_setting: "keeps_self (bench_setting k)"
  by (simp add: keeps_self_def bench_setting_def)

lemma keeps_self_attr: "keeps_self (self_attr f)"
  by (simp add: keeps_self_def self_attr_def)

lemma keeps_self_seq:
  assumes "keeps_self m" and "\<And>x. keeps_self (f x)"
  shows "keeps_self (seq m f)"
proof -
  have "self (snd (seq m f s)) = self s" for s
  proof (cases "m s")
    case (Pair r s')
    from assms(1) have s': "self s' = self s"
      using Pair by (metis keeps_self_def snd_conv)
    show ?thesis
    proof (cases r)
      case (Inl e)
      with Pair s' show ?thesis by (simp add: seq_def)
    next
      case (Inr x)
      from assms(2) have "self (snd (f x s')) = self s'"
        by (simp add: keeps_self_def)
      with Pair Inr s' show ?thesis by (simp add: seq_def)
    qed
  qed
  then show ?thesis by (simp add: keeps_self_def)
qed

lemma keeps_self_except:
  assumes "keeps_self body" and "keeps_self handler"
  shows "keeps_self (except_timeout body handler)"
proof -
  have "self (snd (except_timeout body handler s)) = self s" for s
  proof (cases "body s")
    case (Pair r s')
    from assms(1) have s': "self s' = self s"
      using Pair by (metis keeps_self_def snd_conv)
    from assms(2) have h: "self (snd (handler s')) = self s'"
      by (simp add: keeps_self_def)
    show ?thesis using Pair s' h
      by (cases r) (simp_all add: except_timeout_def)
  qed
  then show ?thesis by (simp add: keeps_self_def)
qed

lemma keeps_self_finally:
  assumes "keeps_self body" and "keeps_self fin"
  shows "keeps_self (try_finally body fin)"
proof -
  have "self (snd (try_finally body fin s)) = self s" for s
  proof (cases "body s")
    case (Pair r s1)
    from assms(1) have s1: "self s1 = self s"
      using Pair by (metis keeps_self_def snd_conv)
    from assms(2) have h: "self (snd (fin s1)) = self s1"
      by (simp add: keeps_self_def)
    show ?thesis using Pair s1 h
      by (cases "fin s1"; cases r) (auto simp: try_finally_def split: sum.splits)
  qed
  then show ?thesis by (simp add: keeps_self_def)
qed

lemma keeps_self_fix_all: "keeps_self (fix_all fk tref its)"
proof -
  have "self (snd (fix_all fk tref its s)) = self s" for s
  proof (induction its arbitrary: s)
    case Nil
    then show ?case by simp
  next
    case (Cons it its)
    have c: "self (snd (call fk (FixTimestamps it tref) s)) = self s"
      using keeps_self_call by (simp add: keeps_self_def)
    show ?case
    proof (cases "call fk (FixTimestamps it tref) s")
      case (Pair r s')
      with c have s': "self s' = self s" by simp
      show ?thesis
      proof (cases r)
        case (Inl e)
        with Pair s' show ?thesis by simp
      next
        case (Inr u)
        have "self (snd (fix_all fk tref its s')) = self s'" by (rule Cons.IH)
        with Pair Inr s' show ?thesis
          by (cases "fix_all fk tref its s'") (auto split: sum.splits)
      qed
    qed
  qed
  then show ?thesis by (simp add: keeps_self_def)
qed

lemmas keeps_self_intros =
  keeps_self_seq keeps_self_ret keeps_self_raise keeps_self_lift keeps_self_call
  keeps_self_note keeps_self_time keeps_self_setting keeps_self_bench_setting
  keeps_self_attr keeps_self_except keeps_self_finally keeps_self_fix_all

lemma keeps_self_master_run:
  "keeps_self (\<lambda>s. case master_run fk n s of (callable, s') \<Rightarrow>
            (snd (time_limit deadline callable), s'))"
  by (simp add: keeps_self_def master_run_def)

lemma keeps_self_bohb_setup: "keeps_self (bohb_setup fk)"
  unfolding bohb_setup_def by (intro keeps_self_intros)

lemma keeps_self_guarded_run: "keeps_self (guarded_run fk)"
  unfolding guarded_run_def by (intro keeps_self_intros keeps_self_master_run)

lemma keeps_self_recover: "keeps_self (recover fk)"
  unfolding recover_def by (intro keeps_self_intros)

lemma keeps_self_bohb_report: "keeps_self (bohb_report fk res)"
  unfolding bohb_report_def by (cases res) (simp_all, intro keeps_self_intros, intro keeps_self_intros)

lemma keeps_self_bohb_run: "keeps_self (bohb_run fk)"
  unfolding bohb_run_def bohb_optimize_def bohb_teardown_def
  by (intro keeps_self_intros keeps_self_bohb_setup keeps_self_guarded_run
        keeps_self_recover keeps_self_bohb_report)

lemma keeps_self_smac_setup: "keeps_self (smac_setup fk)"
  unfolding smac_setup_def by (intro keeps_self_intros)

lemma keeps_self_smac_run: "keeps_self (smac_run fk)"
  unfolding smac_run_def read_incumbent_def
  by (intro keeps_self_intros keeps_self_smac_setup)

lemma keeps_self_wrapper: "keeps_self (optimization_function_wrapper fk cfg seed inst budget)"
  unfolding optimization_function_wrapper_def by (intro keeps_self_intros)

lemma seq_Inr_elim:
  assumes "seq m f s = (Inr v, s')"
  obtains x s1 where "m s = (Inr x, s1)" and "f x s1 = (Inr v, s')"
  using assms by (auto simp: seq_def split: prod.splits sum.splits)

lemma keeps_selfD: "keeps_self p \<Longrightarrow> p s = (r, s') \<Longrightarrow> self s' = self s"
  by (metis keeps_self_def snd_conv)

section \<open>The call log only grows\<close>

lemma growsD: "grows p \<Longrightarrow> p s = (r, s') \<Longrightarrow> \<exists>ext. trace s' = trace s @ ext"
  by (metis grows_def snd_conv)

lemma grows_ret: "grows (ret x)"
  by (simp add: grows_def ret_def)

lemma grows_lift: "grows (lift r)"
  by (simp add: grows_def lift_def)

lemma grows_call: "grows (call fk ev)"
  by (simp add: grows_def call_def)

lemma grows_note: "grows (note_step ev)"
  by (simp add: grows_def note_step_def)

lemma grows_time: "grows (py_time fk)"
  by (simp add: grows_def py_time_def)

lemma grows_setting: "grows (self_setting k)"
  by (simp add: grows_def self_setting_def)

lemma grows_attr: "grows (self_attr f)"
  by (simp add: grows_def self_attr_def)

lemma grows_seq:
  assumes "grows m" and "\<And>x. grows (f x)"
  shows "grows (seq m f)"
proof -
  have "\<exists>ext. trace (snd (seq m f s)) = trace s @ ext" for s
  proof (cases "m s")
    case (Pair r s')
    from growsD [OF assms(1) Pair] obtain e1 where e1: "trace s' = trace s @ e1" ..
    show ?thesis
    proof (cases r)
      case (Inl e)
      with Pair e1 show ?thesis by (simp add: seq_def)
    next
      case (Inr x)
      from assms(2) obtain e2 where "trace (snd (f x s')) = trace s' @ e2"
        unfolding grows_def by blast
      with Pair Inr e1 show ?thesis by (simp add: seq_def)
    qed
  qed
  then show ?thesis by (simp add: grows_def)
qed

lemma grows_except:
  assumes "grows body" and "grows handler"
  shows "grows (except_timeout body handler)"
proof -
  have "\<exists>ext. trace (snd (except_timeout body handler s)) = trace s @ ext" for s
  proof (cases "body s")
    case (Pair r s')
    from growsD [OF assms(1) Pair] obtain e1 where e1: "trace s' = trace s @ e1" ..
    from assms(2) obtain e2 where e2: "trace (snd (handler s')) = trace s' @ e2"
      unfolding grows_def by blast
    show ?thesis using Pair e1 e2
      by (cases r) (simp_all add: except_timeout_def)
  qed
  then show ?thesis by (simp add: grows_def)
qed

lemma grows_finally:
  assumes "grows body" and "grows fin"
  shows "grows (try_finally body fin)"
proof -
  have "\<exists>ext. trace (snd (try_finally body fin s)) = trace s @ ext" for s
  proof (cases "body s")
    case (Pair r s1)
    from growsD [OF assms(1) Pair] obtain e1 where e1: "trace s1 = trace s @ e1" ..
    from assms(2) obtain e2 where e2: "trace (snd (fin s1)) = trace s1 @ e2"
      unfolding grows_def by blast
    show ?thesis using Pair e1 e2
      by (cases "fin s1"; cases r) (auto simp: try_finally_def split: sum.splits)
  qed
  then show ?thesis by (simp add: grows_def)
qed

lemma grows_fix_all: "grows (fix_all fk tref its)"
proof -
  have "\<exists>ext. trace (snd (fix_all fk tref its s)) = trace s @ ext" for s
  proof (induction its arbitrary: s)
    case Nil
    then show ?case by simp
  next
    case (Cons it its)
    obtain r s' where c: "call fk (FixTimestamps it tref) s = (r, s')"
      by (cases "call fk (FixTimestamps it tref) s")
    from growsD [OF grows_call c] obtain e1 where e1: "trace s' = trace s @ e1" ..
    show ?case
    proof (cases r)
      case (Inl e)
      with c e1 show ?thesis by simp
    next
      case (Inr u)
      from Cons.IH obtain e2 where "trace (snd (fix_all fk tref its s')) = trace s' @ e2"
        by blast
      with c Inr e1 show ?thesis
        by (cases "fix_all fk tref its s'") (auto split: sum.splits)
    qed
  qed
  then show ?thesis by (simp add: grows_def)
qed

lemmas grows_intros =
  grows_seq grows_ret grows_lift grows_call grows_note grows_time grows_setting
  grows_attr grows_except grows_finally grows_fix_all

lemma grows_master_run:
  "grows (\<lambda>s. case master_run fk n s of (callable, s') \<Rightarrow>
            (snd (time_limit deadline callable), s'))"
  by (simp add: grows_def master_run_def)

lemma grows_guarded_run: "grows (guarded_run fk)"
  unfolding guarded_run_def by (intro grows_intros grows_master_run)

lemma grows_recover: "grows (recover fk)"
  unfolding recover_def by (intro grows_intros)

lemma grows_bohb_report: "grows (bohb_report fk res)"
  unfolding bohb_report_def by (cases res) (simp_all, intro grows_intros, intro grows_intros)

lemma grows_after_bohb_setup:
  "grows (seq (bohb_optimize fk) (\<lambda>res. seq (bohb_teardown fk) (\<lambda>_.
            seq (bohb_report fk res) (\<lambda>_. self_setting ''output_dir''))))"
  unfolding bohb_optimize_def bohb_teardown_def
  by (intro grows_intros grows_guarded_run grows_recover grows_bohb_report)

lemma grows_after_smac_setup:
  "grows (seq (py_time fk) (\<lambda>start_time.
     seq (try_finally (call fk Optimize) (read_incumbent fk)) (\<lambda>incumbent.
     seq (py_time fk) (\<lambda>end_time.
     seq (call fk (LogFinished (py_int (end_time - start_time)) incumbent)) (\<lambda>_.
     ret (py_Path (smac_output_dir fk sd)))))))"
  unfolding read_incumbent_def by (intro grows_intros)

section \<open>The stages of \<^verbatim>\<open>BOHBOptimizer.run\<close> with quiet collaborators\<close>

lemma call_quiet: "quiet fk \<Longrightarrow> call fk ev s = (Inr (), s\<lparr>trace := trace s @ [ev]\<rparr>)"
  by (simp add: quiet_def call_def)

lemma fix_all_quiet:
  "quiet fk \<Longrightarrow>
   fix_all fk tref its s =
     (Inr (map (fix_timestamps fk tref) its),
      s\<lparr>trace := trace s @ map (\<lambda>it. FixTimestamps it tref) its\<rparr>)"
  by (induction its arbitrary: s) (simp_all add: call_quiet)

lemma guarded_run_timeout:
  assumes "getitem (optimizer_settings (self s)) ''time_limit_in_s'' = Inr (IntV d)"
    and "getitem (optimizer_settings (self s)) ''num_iterations'' = Inr n"
    and "of_int d < run_duration fk"
  shows "guarded_run fk s = (Inl TimeoutException, s\<lparr>trace := trace s @ [MasterRun n]\<rparr>)"
  using assms
  by (simp add: guarded_run_def seq_def self_setting_def lift_def seconds_of_def
      master_run_def time_limit_def)

lemma recover_quiet:
  assumes "quiet fk"
  shows "recover fk s =
    (Inr (Some (Result (iterations fk @ map (fix_timestamps fk (time_ref fk)) (warmstart_iteration fk))
                  (master_config fk))),
     s\<lparr>trace := trace s @ map (\<lambda>it. FixTimestamps it (time_ref fk)) (warmstart_iteration fk) @
        [ResultInit (iterations fk @ map (fix_timestamps fk (time_ref fk)) (warmstart_iteration fk))
           (master_config fk),
         LogInfo ''WALLCLOCK LIMIT REACHED'']\<rparr>)"
  using assms
  by (simp add: recover_def seq_def fix_all_quiet call_quiet ret_def)

lemma teardown_quiet:
  "quiet fk \<Longrightarrow>
   bohb_teardown fk s = (Inr (), s\<lparr>trace := trace s @ [MasterShutdown True, NsShutdown]\<rparr>)"
  by (simp add: bohb_teardown_def seq_def call_quiet)

lemma report_quiet:
  assumes "quiet fk"
    and "last_item (runs_by_id fk r (incumbent_id fk r)) = Inr run"
    and "getitem run ''loss'' = Inr inc_value"
    and "lookup_id fk (id2config_mapping fk r) (incumbent_id fk r) = Inr entry"
    and "getitem entry ''config'' = Inr inc_cfg"
    and "format_2f inc_value = Inr ()"
  shows "bohb_report fk (Some r) s =
    (Inr (), s\<lparr>trace := trace s @
       [GetId2ConfigMapping, GetIncumbentId, GetRunsById (incumbent_id fk r),
        LogIncumbent inc_cfg inc_value]\<rparr>)"
  using assms
  by (simp add: bohb_report_def seq_def call_quiet lift_def)

lemma slow_bohb_setup:
  "bohb_setup slow_fakes demo_state =
    (Inr (), demo_state\<lparr>trace :=
     [JsonResultLogger ''out'' True,
      NameServerInit ''BOHB_optimization_seed_0'' ''localhost'' ''out'',
      NameServerStart,
      CustomWorkerInit (ObjV ''bench'') demo_benchmark_settings
       (StrV ''127.0.0.1'') (IntV 9090) ''BOHB_optimization_seed_0'',
      WorkerRun True,
      BOHBInit (ObjV ''cs'') ''BOHB_optimization_seed_0''
       (StrV ''127.0.0.1'') (StrV ''127.0.0.1'') (IntV 9090) (IntV 3)
       (IntV 1) (IntV 27) ''out'']\<rparr>)"
  by (simp add: bohb_setup_def seq_def self_setting_def self_attr_def getitem_def ret_def
      call_def py_str_def demo_state_def demo_self_def demo_settings_def demo_fakes_def
      slow_fakes_def)

section \<open>What the runs return\<close>

lemma bohb_setup_Inr:
  assumes "bohb_setup fk s = (Inr u, s1)"
  shows "\<exists>od eta min_budget max_budget.
           getitem (optimizer_settings (self s)) ''output_dir'' = Inr od \<and>
           trace s1 = trace s @
             [JsonResultLogger (py_str fk od) True,
              NameServerInit (run_id (self s)) ''localhost'' (py_str fk od),
              NameServerStart,
              CustomWorkerInit (benchmark (self s)) (benchmark_settings (self s))
                (fst (ns_address fk)) (snd (ns_address fk)) (run_id (self s)),
              WorkerRun True,
              BOHBInit (cs (self s)) (run_id (self s)) (fst (ns_address fk))
                (fst (ns_address fk)) (snd (ns_address fk)) eta min_budget max_budget
                (py_str fk od)]"
  using assms
  by (auto simp: bohb_setup_def seq_def self_setting_def self_attr_def call_def
      split: sum.splits option.splits)

lemma bohb_run_Inr:
  assumes "bohb_run fk s = (Inr v, s')"
  shows "getitem (optimizer_settings (self s)) ''output_dir'' = Inr v \<and>
         (\<exists>eta min_budget max_budget ext.
            trace s' = trace s @
              [JsonResultLogger (py_str fk v) True,
               NameServerInit (run_id (self s)) ''localhost'' (py_str fk v),
               NameServerStart,
               CustomWorkerInit (benchmark (self s)) (benchmark_settings (self s))
                 (fst (ns_address fk)) (snd (ns_address fk)) (run_id (self s)),
               WorkerRun True,
               BOHBInit (cs (self s)) (run_id (self s)) (fst (ns_address fk))
                 (fst (ns_address fk)) (snd (ns_address fk)) eta min_budget max_budget
                 (py_str fk v)] @ ext)"
proof -
  from assms obtain u1 s1 where 1: "bohb_setup fk s = (Inr u1, s1)"
    and r1: "seq (bohb_optimize fk) (\<lambda>res. seq (bohb_teardown fk) (\<lambda>_.
               seq (bohb_report fk res) (\<lambda>_. self_setting ''output_dir''))) s1 = (Inr v, s')"
    unfolding bohb_run_def by (rule seq_Inr_elim)
  from r1 obtain res s2 where 2: "bohb_optimize fk s1 = (Inr res, s2)"
    and r2: "seq (bohb_teardown fk) (\<lambda>_.
               seq (bohb_report fk res) (\<lambda>_. self_setting ''output_dir'')) s2 = (Inr v, s')"
    by (rule seq_Inr_elim)
  from r2 obtain u3 s3 where 3: "bohb_teardown fk s2 = (Inr u3, s3)"
    and r3: "seq (bohb_report fk res) (\<lambda>_. self_setting ''output_dir'') s3 = (Inr v, s')"
    by (rule seq_Inr_elim)
  from r3 obtain u4 s4 where 4: "bohb_report fk res s3 = (Inr u4, s4)"
    and r4: "self_setting ''output_dir'' s4 = (Inr v, s')"
    by (rule seq_Inr_elim)
  have "self s1 = self s" using keeps_self_bohb_setup 1 by (rule keeps_selfD)
  moreover have "self s2 = self s1"
    using keeps_self_except [OF keeps_self_guarded_run keeps_self_recover] 2
    unfolding bohb_optimize_def by (rule keeps_selfD)
  moreover have "self s3 = self s2"
    using keeps_self_seq [OF keeps_self_call keeps_self_call] 3
    unfolding bohb_teardown_def by (rule keeps_selfD)
  moreover have "self s4 = self s3" using keeps_self_bohb_report 4 by (rule keeps_selfD)
  ultimately have "self s4 = self s" by simp
  with r4 have od: "getitem (optimizer_settings (self s)) ''output_dir'' = Inr v"
    by (simp add: self_setting_def)
  from growsD [OF grows_after_bohb_setup r1] obtain ext where ext: "trace s' = trace s1 @ ext" ..
  from bohb_setup_Inr [OF 1] od obtain eta min_budget max_budget where
    "trace s1 = trace s @
       [JsonResultLogger (py_str fk v) True,
        NameServerInit (run_id (self s)) ''localhost'' (py_str fk v),
        NameServerStart,
        CustomWorkerInit (benchmark (self s)) (benchmark_settings (self s))
          (fst (ns_address fk)) (snd (ns_address fk)) (run_id (self s)),
        WorkerRun True,
        BOHBInit (cs (self s)) (run_id (self s)) (fst (ns_address fk))
          (fst (ns_address fk)) (snd (ns_address fk)) eta min_budget max_budget
          (py_str fk v)]"
    by auto
  with ext od show ?thesis by simp
qed

lemma smac_setup_Inr:
  assumes "smac_setup fk s = (Inr sd, s1)"
  shows "\<exists>od seed intens kwargs.
           getitem (optimizer_settings (self s)) ''output_dir'' = Inr od \<and>
           getitem sd ''output_dir'' = Inr (StrV (py_str fk od)) \<and>
           trace s1 = trace s @
             [ScenarioInit sd, RandomState seed, SMAC4HPOInit sd seed intens kwargs]"
  using assms
  by (auto simp: smac_setup_def seq_def self_setting_def self_attr_def ret_def call_def
      lift_def scenario_dict_def getitem_def [of "_ # _"]
      split: sum.splits option.splits)

lemma smac_run_Inr:
  assumes "smac_run fk s = (Inr v, s')"
  shows "\<exists>sd s1 ext. smac_setup fk s = (Inr sd, s1) \<and> v = py_Path (smac_output_dir fk sd) \<and>
           trace s' = trace s1 @ ext"
proof -
  from assms obtain sd s1 where 1: "smac_setup fk s = (Inr sd, s1)"
    and r1: "seq (py_time fk) (\<lambda>start_time.
     seq (try_finally (call fk Optimize) (read_incumbent fk)) (\<lambda>incumbent.
     seq (py_time fk) (\<lambda>end_time.
     seq (call fk (LogFinished (py_int (end_time - start_time)) incumbent)) (\<lambda>_.
     ret (py_Path (smac_output_dir fk sd)))))) s1 = (Inr v, s')"
    unfolding smac_run_def by (rule seq_Inr_elim)
  from r1 have "v = py_Path (smac_output_dir fk sd)"
    by (auto simp: seq_def ret_def split: prod.splits sum.splits)
  moreover from growsD [OF grows_after_smac_setup r1]
  obtain ext where "trace s' = trace s1 @ ext" ..
  ultimately show ?thesis using 1 by blast
qed

lemma demo_bohb_run:
  "bohb_run demo_fakes demo_state =
    (Inr (PathV ''out''),
     demo_state\<lparr>trace :=
     [JsonResultLogger ''out'' True,
      NameServerInit ''BOHB_optimization_seed_0'' ''localhost'' ''out'',
      NameServerStart,
      CustomWorkerInit (ObjV ''bench'') demo_benchmark_settings
       (StrV ''127.0.0.1'') (IntV 9090) ''BOHB_optimization_seed_0'',
      WorkerRun True,
      BOHBInit (ObjV ''cs'') ''BOHB_optimization_seed_0''
       (StrV ''127.0.0.1'') (StrV ''127.0.0.1'') (IntV 9090) (IntV 3)
       (IntV 1) (IntV 27) ''out'',
      MasterRun (IntV 4), MasterShutdown True, NsShutdown,
      GetId2ConfigMapping, GetIncumbentId, GetRunsById (IntV 0),
      LogIncumbent (ObjV ''c0'') (IntV 1)]\<rparr>)"
  by (simp add: bohb_run_def bohb_setup_def bohb_optimize_def guarded_run_def master_run_def
      time_limit_def seconds_of_def except_timeout_def bohb_teardown_def bohb_report_def
      last_item_def lookup_id_def format_2f_def lift_def
      seq_def self_setting_def self_attr_def getitem_def ret_def
      call_def py_str_def demo_state_def demo_self_def demo_settings_def demo_fakes_def)

lemma path_text_run_1: "py_Path ''out/run_1'' = PathV ''out/run_1''"
  by (simp add: py_Path_def path_text_def path_root_def)

lemma demo_smac_run:
  "smac_run demo_fakes demo_state =
     (Inr (PathV ''out/run_1''),
      demo_state\<lparr>trace :=
        [ScenarioInit (scenario_dict (IntV 10) (ObjV ''cs'') (IntV 40) (IntV 5) (IntV 1000) ''out''),
         RandomState (IntV 0),
         SMAC4HPOInit (scenario_dict (IntV 10) (ObjV ''cs'') (IntV 40) (IntV 5) (IntV 1000) ''out'')
           (IntV 0) Hyperband
           [(''initial_budget'', IntV 1), (''max_budget'', IntV 27), (''eta'', IntV 3)],
         Time, Optimize, SolverIncumbent, Time, LogFinished 3 (ObjV ''c0'')]\<rparr>)"
  by (simp add: smac_run_def smac_setup_def seq_def self_setting_def self_attr_def getitem_def
      ret_def call_def py_str_def py_time_def try_finally_def read_incumbent_def note_step_def
      py_int_def scenario_dict_def lift_def path_text_run_1
      demo_state_def demo_self_def demo_settings_def demo_fakes_def)

lemma demo_smac_setup:
  "raises fk = (\<lambda>_ ev. case ev of Optimize \<Rightarrow> x | _ \<Rightarrow> None) \<Longrightarrow>
   str_of fk = str_of demo_fakes \<Longrightarrow>
   get_number_ta_runs fk = get_number_ta_runs demo_fakes \<Longrightarrow>
   smac_setup fk demo_state =
     (Inr (scenario_dict (IntV 10) (ObjV ''cs'') (IntV 40) (IntV 5) (IntV 1000) ''out''),
      demo_state\<lparr>trace :=
        [ScenarioInit (scenario_dict (IntV 10) (ObjV ''cs'') (IntV 40) (IntV 5) (IntV 1000) ''out''),
         RandomState (IntV 0),
         SMAC4HPOInit (scenario_dict (IntV 10) (ObjV ''cs'') (IntV 40) (IntV 5) (IntV 1000) ''out'')
           (IntV 0) Hyperband
           [(''initial_budget'', IntV 1), (''max_budget'', IntV 27), (''eta'', IntV 3)]]\<rparr>)"
  by (simp add: smac_setup_def seq_def self_setting_def self_attr_def getitem_def ret_def
      lift_def call_def py_str_def demo_state_def demo_self_def demo_settings_def
      demo_fakes_def)

section \<open>The claims\<close>

text \<open>
  C1 (what the code does where the claim fails). When \<^verbatim>\<open>master.run\<close> raises an error
  other than the deadline signal, \<^verbatim>\<open>run\<close> raises it and neither
  \<^verbatim>\<open>master.shutdown\<close> nor \<^verbatim>\<open>ns.shutdown\<close> has been called; when
  \<^verbatim>\<open>master.shutdown\<close> raises, \<^verbatim>\<open>run\<close> raises that error in place of
  returning, and \<^verbatim>\<open>ns.shutdown\<close> has not been called.
\<close>

theorem bohb_run_failure_skips_teardown:
  "fst (bohb_run engine_failure_fakes demo_state) = Inl (OtherException ''engine failure'') \<and>
   count_list (trace (snd (bohb_run engine_failure_fakes demo_state))) (MasterShutdown True) = 0 \<and>
   count_list (trace (snd (bohb_run engine_failure_fakes demo_state))) NsShutdown = 0 \<and>
   fst (bohb_run shutdown_failure_fakes demo_state) = Inl (OtherException ''shutdown failure'') \<and>
   count_list (trace (snd (bohb_run shutdown_failure_fakes demo_state))) (MasterShutdown True) = 1 \<and>
   count_list (trace (snd (bohb_run shutdown_failure_fakes demo_state))) NsShutdown = 0"
proof -
  have e: "bohb_run engine_failure_fakes demo_state =
    (Inl (OtherException ''engine failure''),
     demo_state\<lparr>trace :=
     [JsonResultLogger ''out'' True,
      NameServerInit ''BOHB_optimization_seed_0'' ''localhost'' ''out'',
      NameServerStart,
      CustomWorkerInit (ObjV ''bench'') demo_benchmark_settings
       (StrV ''127.0.0.1'') (IntV 9090) ''BOHB_optimization_seed_0'',
      WorkerRun True,
      BOHBInit (ObjV ''cs'') ''BOHB_optimization_seed_0''
       (StrV ''127.0.0.1'') (StrV ''127.0.0.1'') (IntV 9090) (IntV 3)
       (IntV 1) (IntV 27) ''out'',
      MasterRun (IntV 4)]\<rparr>)"
    by (simp add: bohb_run_def bohb_setup_def bohb_optimize_def guarded_run_def master_run_def
      time_limit_def seconds_of_def except_timeout_def lift_def
      seq_def self_setting_def self_attr_def getitem_def ret_def
      call_def py_str_def demo_state_def demo_self_def demo_settings_def demo_fakes_def
      engine_failure_fakes_def)
  have t: "bohb_run shutdown_failure_fakes demo_state =
    (Inl (OtherException ''shutdown failure''),
     demo_state\<lparr>trace :=
     [JsonResultLogger ''out'' True,
      NameServerInit ''BOHB_optimization_seed_0'' ''localhost'' ''out'',
      NameServerStart,
      CustomWorkerInit (ObjV ''bench'') demo_benchmark_settings
       (StrV ''127.0.0.1'') (IntV 9090) ''BOHB_optimization_seed_0'',
      WorkerRun True,
      BOHBInit (ObjV ''cs'') ''BOHB_optimization_seed_0''
       (StrV ''127.0.0.1'') (StrV ''127.0.0.1'') (IntV 9090) (IntV 3)
       (IntV 1) (IntV 27) ''out'',
      MasterRun (IntV 4), MasterShutdown True]\<rparr>)"
    by (simp add: bohb_run_def bohb_setup_def bohb_optimize_def guarded_run_def master_run_def
      time_limit_def seconds_of_def except_timeout_def lift_def bohb_teardown_def
      seq_def self_setting_def self_attr_def getitem_def ret_def
      call_def py_str_def demo_state_def demo_self_def demo_settings_def demo_fakes_def
      shutdown_failure_fakes_def)
  show ?thesis by (simp add: e t)
qed

text \<open>
  C2. If \<^verbatim>\<open>smac.optimize()\<close> raises \<open>e\<close>, the read of
  \<^verbatim>\<open>smac.solver.incumbent\<close> is the next step of \<^verbatim>\<open>SMACOptimizer.run\<close>, it is the
  last one, and the run raises \<open>e\<close> itself.
\<close>

theorem smac_run_reads_incumbent_then_reraises:
  assumes "smac_setup fk s = (Inr sd, s1)"
    and "raises fk (trace s1 @ [Time]) Optimize = Some e"
  shows "smac_run fk s = (Inl e, s1\<lparr>trace := trace s1 @ [Time, Optimize, SolverIncumbent]\<rparr>)"
  using assms
  by (simp add: smac_run_def seq_def py_time_def try_finally_def call_def read_incumbent_def
      note_step_def ret_def)

text \<open>The claim at \<open>optimize_failure_fakes\<close>.\<close>

theorem smac_run_reads_incumbent_then_reraises_witness:
  "smac_run optimize_failure_fakes demo_state =
     (Inl (OtherException ''optimize failure''),
      demo_state\<lparr>trace :=
        [ScenarioInit (scenario_dict (IntV 10) (ObjV ''cs'') (IntV 40) (IntV 5) (IntV 1000) ''out''),
         RandomState (IntV 0),
         SMAC4HPOInit (scenario_dict (IntV 10) (ObjV ''cs'') (IntV 40) (IntV 5) (IntV 1000) ''out'')
           (IntV 0) Hyperband
           [(''initial_budget'', IntV 1), (''max_budget'', IntV 27), (''eta'', IntV 3)],
         Time, Optimize, SolverIncumbent]\<rparr>)"
proof -
  have stp: "smac_setup optimize_failure_fakes demo_state =
     (Inr (scenario_dict (IntV 10) (ObjV ''cs'') (IntV 40) (IntV 5) (IntV 1000) ''out''),
      demo_state\<lparr>trace :=
        [ScenarioInit (scenario_dict (IntV 10) (ObjV ''cs'') (IntV 40) (IntV 5) (IntV 1000) ''out''),
         RandomState (IntV 0),
         SMAC4HPOInit (scenario_dict (IntV 10) (ObjV ''cs'') (IntV 40) (IntV 5) (IntV 1000) ''out'')
           (IntV 0) Hyperband
           [(''initial_budget'', IntV 1), (''max_budget'', IntV 27), (''eta'', IntV 3)]]\<rparr>)"
    by (rule demo_smac_setup) (simp_all add: optimize_failure_fakes_def)
  have r: "raises optimize_failure_fakes tr Optimize = Some (OtherException ''optimize failure'')"
    for tr
    by (simp add: optimize_failure_fakes_def)
  from smac_run_reads_incumbent_then_reraises [OF stp r]
  show ?thesis by simp
qed

text \<open>
  C3. A callable that returns \<open>r\<close> after a time \<open>t\<close> below the deadline \<open>d\<close>: the
  guard yields \<open>r\<close> at \<open>t\<close> and raises nothing. A callable that runs past \<open>d\<close>:
  the guard raises \<^verbatim>\<open>TimeoutException\<close> at \<open>d\<close>. A callable that returns at \<open>d\<close>
  exactly: the guard yields its result. Whenever the guard raises
  \<^verbatim>\<open>TimeoutException\<close> around a callable that returns, the deadline has passed.
\<close>

theorem time_limit_contract:
  "(t < d \<longrightarrow> time_limit d (t, Inr r) = (t, Inr r)) \<and>
   (d < t \<longrightarrow> time_limit d (t, out) = (d, Inl TimeoutException)) \<and>
   time_limit d (d, Inr r) = (d, Inr r) \<and>
   (snd (time_limit d (t, Inr r)) = Inl TimeoutException \<longrightarrow>
      d \<le> fst (time_limit d (t, Inr r)))"
  by (simp add: time_limit_def)

text \<open>The claim for a callable of three seconds and one of twenty, under a deadline of ten.\<close>

theorem time_limit_contract_witness:
  "(3::rat) < 10 \<and> time_limit 10 (3, Inr (IntV 7)) = (3, Inr (IntV 7)) \<and>
   (10::rat) < 20 \<and> time_limit 10 (20, Inr (IntV 7)) = (10, Inl TimeoutException) \<and>
   snd (time_limit 10 (20, Inr (IntV 7))) = Inl TimeoutException \<and>
   (10::rat) \<le> fst (time_limit 10 (20, Inr (IntV 7)))"
  using time_limit_contract [of 3 10 "IntV 7" "Inr (IntV 7)"]
    time_limit_contract [of 20 10 "IntV 7" "Inr (IntV 7)"]
  by simp

text \<open>
  C4 (where the claim fails). The engine is interrupted before any iteration has begun
  and no collaborator raises: the deadline signal is caught, an empty result is built,
  the message is logged, worker and name server are shut down, and then the report of
  the incumbent (line 88) raises \<^verbatim>\<open>IndexError\<close>: the run does not return.
\<close>

theorem bohb_run_timeout_empty_result_raises:
  "bohb_run empty_slow_fakes demo_state =
    (Inl IndexError,
     demo_state\<lparr>trace :=
     [JsonResultLogger ''out'' True,
      NameServerInit ''BOHB_optimization_seed_0'' ''localhost'' ''out'',
      NameServerStart,
      CustomWorkerInit (ObjV ''bench'') demo_benchmark_settings
       (StrV ''127.0.0.1'') (IntV 9090) ''BOHB_optimization_seed_0'',
      WorkerRun True,
      BOHBInit (ObjV ''cs'') ''BOHB_optimization_seed_0''
       (StrV ''127.0.0.1'') (StrV ''127.0.0.1'') (IntV 9090) (IntV 3)
       (IntV 1) (IntV 27) ''out'',
      MasterRun (IntV 4), ResultInit [] (ObjV ''configs''),
      LogInfo ''WALLCLOCK LIMIT REACHED'', MasterShutdown True, NsShutdown,
      GetId2ConfigMapping, GetIncumbentId, GetRunsById NoneV]\<rparr>)"
  by (simp add: bohb_run_def bohb_setup_def bohb_optimize_def guarded_run_def master_run_def
      time_limit_def seconds_of_def except_timeout_def recover_def bohb_teardown_def
      bohb_report_def last_item_def lift_def
      seq_def self_setting_def self_attr_def getitem_def ret_def
      call_def py_str_def demo_state_def demo_self_def demo_settings_def demo_fakes_def
      slow_fakes_def empty_slow_fakes_def)

text \<open>
  C4 (amended). On the timeout path of \<^verbatim>\<open>BOHBOptimizer.run\<close> (the engine needs longer
  than \<^verbatim>\<open>time_limit_in_s\<close>), when no collaborator call raises: the deadline signal is
  caught; \<^verbatim>\<open>fix_timestamps\<close> is called with \<^verbatim>\<open>master.time_ref\<close> on every warm-start
  iteration, in order; one \<^verbatim>\<open>Result\<close> is built from the data of the iterations
  followed by the data of the warm-start iterations; \<^verbatim>\<open>WALLCLOCK LIMIT REACHED\<close> is
  logged; worker and name server are then shut down, once each. The run ends as the
  report of the incumbent of the merged result ends: it raises what the report raises,
  and returns \<^verbatim>\<open>output_dir\<close>, which is set, when the report returns.
\<close>

theorem bohb_run_timeout_path:
  assumes q: "quiet fk"
    and st: "bohb_setup fk s = (Inr (), s1)"
    and tl: "getitem (optimizer_settings (self s)) ''time_limit_in_s'' = Inr (IntV d)"
    and n: "getitem (optimizer_settings (self s)) ''num_iterations'' = Inr n"
    and late: "of_int d < run_duration fk"
    and merged: "r = Result (iterations fk @
                   map (fix_timestamps fk (time_ref fk)) (warmstart_iteration fk))
                   (master_config fk)"
    and s2: "s2 = s1\<lparr>trace := trace s1 @ [MasterRun n] @
                map (\<lambda>it. FixTimestamps it (time_ref fk)) (warmstart_iteration fk) @
                [ResultInit (res_data r) (res_config r),
                 LogInfo ''WALLCLOCK LIMIT REACHED'']\<rparr>"
    and s3: "s3 = s2\<lparr>trace := trace s2 @ [MasterShutdown True, NsShutdown]\<rparr>"
  shows "bohb_optimize fk s1 = (Inr (Some r), s2) \<and>
         bohb_teardown fk s2 = (Inr (), s3) \<and>
         bohb_run fk s =
           (case bohb_report fk (Some r) s3 of
              (Inl e, s4) \<Rightarrow> (Inl e, s4)
            | (Inr u, s4) \<Rightarrow> (getitem (optimizer_settings (self s)) ''output_dir'', s4)) \<and>
         (\<exists>od. getitem (optimizer_settings (self s)) ''output_dir'' = Inr od)"
proof -
  have s1: "self s1 = self s" using keeps_self_bohb_setup st by (rule keeps_selfD)
  have g: "guarded_run fk s1 = (Inl TimeoutException, s1\<lparr>trace := trace s1 @ [MasterRun n]\<rparr>)"
    using tl n late by (intro guarded_run_timeout) (simp_all add: s1)
  have o: "bohb_optimize fk s1 = (Inr (Some r), s2)"
    by (simp add: bohb_optimize_def except_timeout_def g recover_quiet [OF q] merged s2)
  have t: "bohb_teardown fk s2 = (Inr (), s3)"
    by (simp add: teardown_quiet [OF q] s3)
  have s3': "self s3 = self s" by (simp add: s3 s2 s1)
  obtain res s4 where rp: "bohb_report fk (Some r) s3 = (res, s4)"
    by (cases "bohb_report fk (Some r) s3")
  have "self s4 = self s3" using keeps_self_bohb_report rp by (rule keeps_selfD)
  with s3' have s4: "self s4 = self s" by simp
  have run: "bohb_run fk s =
           (case bohb_report fk (Some r) s3 of
              (Inl e, s4) \<Rightarrow> (Inl e, s4)
            | (Inr u, s4) \<Rightarrow> (getitem (optimizer_settings (self s)) ''output_dir'', s4))"
    by (cases res) (simp_all add: bohb_run_def seq_def st o t rp self_setting_def s4)
  from bohb_setup_Inr [OF st]
  have "\<exists>od. getitem (optimizer_settings (self s)) ''output_dir'' = Inr od" by blast
  with o t run show ?thesis by simp
qed

text \<open>The claim at \<open>slow_fakes\<close>, whose engine needs twenty seconds of the ten allowed
  and whose merged result has an incumbent to report: the run returns.\<close>

theorem bohb_run_timeout_path_witness:
  "bohb_run slow_fakes demo_state =
    (Inr (PathV ''out''),
     demo_state\<lparr>trace :=
     [JsonResultLogger ''out'' True,
      NameServerInit ''BOHB_optimization_seed_0'' ''localhost'' ''out'',
      NameServerStart,
      CustomWorkerInit (ObjV ''bench'') demo_benchmark_settings
       (StrV ''127.0.0.1'') (IntV 9090) ''BOHB_optimization_seed_0'',
      WorkerRun True,
      BOHBInit (ObjV ''cs'') ''BOHB_optimization_seed_0''
       (StrV ''127.0.0.1'') (StrV ''127.0.0.1'') (IntV 9090) (IntV 3)
       (IntV 1) (IntV 27) ''out'',
      MasterRun (IntV 4), FixTimestamps (ObjV ''w0'') (IntV 100),
      FixTimestamps (ObjV ''w1'') (IntV 100),
      ResultInit [ObjV ''d0'', ObjV ''w0_fixed'', ObjV ''w1_fixed''] (ObjV ''configs''),
      LogInfo ''WALLCLOCK LIMIT REACHED'', MasterShutdown True, NsShutdown,
      GetId2ConfigMapping, GetIncumbentId, GetRunsById (IntV 0),
      LogIncumbent (ObjV ''c0'') (IntV 1)]\<rparr>)"
proof -
  have q: "quiet slow_fakes" by (simp add: quiet_def slow_fakes_def demo_fakes_def)
  have tl: "getitem (optimizer_settings (self demo_state)) ''time_limit_in_s'' = Inr (IntV 10)"
    and n: "getitem (optimizer_settings (self demo_state)) ''num_iterations'' = Inr (IntV 4)"
    and od: "getitem (optimizer_settings (self demo_state)) ''output_dir'' = Inr (PathV ''out'')"
    by (simp_all add: getitem_def demo_state_def demo_self_def demo_settings_def)
  have late: "of_int 10 < run_duration slow_fakes" by (simp add: slow_fakes_def)
  have merged: "Result [ObjV ''d0'', ObjV ''w0_fixed'', ObjV ''w1_fixed''] (ObjV ''configs'') =
      Result (iterations slow_fakes @
        map (fix_timestamps slow_fakes (time_ref slow_fakes)) (warmstart_iteration slow_fakes))
        (master_config slow_fakes)"
    by (simp add: slow_fakes_def demo_fakes_def)
  have runs: "last_item (runs_by_id slow_fakes
        (Result [ObjV ''d0'', ObjV ''w0_fixed'', ObjV ''w1_fixed''] (ObjV ''configs''))
        (incumbent_id slow_fakes
          (Result [ObjV ''d0'', ObjV ''w0_fixed'', ObjV ''w1_fixed''] (ObjV ''configs'')))) =
      Inr [(''loss'', IntV 1)]"
    by (simp add: last_item_def slow_fakes_def demo_fakes_def)
  have loss: "getitem [(''loss'', IntV 1)] ''loss'' = Inr (IntV 1)" by (simp add: getitem_def)
  have entry: "lookup_id slow_fakes
        (id2config_mapping slow_fakes
          (Result [ObjV ''d0'', ObjV ''w0_fixed'', ObjV ''w1_fixed''] (ObjV ''configs'')))
        (incumbent_id slow_fakes
          (Result [ObjV ''d0'', ObjV ''w0_fixed'', ObjV ''w1_fixed''] (ObjV ''configs''))) =
      Inr [(''config'', ObjV ''c0'')]"
    by (simp add: lookup_id_def slow_fakes_def demo_fakes_def)
  have cfg: "getitem [(''config'', ObjV ''c0'')] ''config'' = Inr (ObjV ''c0'')"
    by (simp add: getitem_def)
  have fmt: "format_2f (IntV 1) = Inr ()" by (simp add: format_2f_def)
  note rp = report_quiet [OF q runs loss entry cfg fmt]
  from bohb_run_timeout_path [OF q slow_bohb_setup tl n late merged refl refl]
  have "bohb_run slow_fakes demo_state =
          (case bohb_report slow_fakes
                  (Some (Result [ObjV ''d0'', ObjV ''w0_fixed'', ObjV ''w1_fixed'']
                           (ObjV ''configs'')))
                  (demo_state\<lparr>trace :=
     [JsonResultLogger ''out'' True,
      NameServerInit ''BOHB_optimization_seed_0'' ''localhost'' ''out'',
      NameServerStart,
      CustomWorkerInit (ObjV ''bench'') demo_benchmark_settings
       (StrV ''127.0.0.1'') (IntV 9090) ''BOHB_optimization_seed_0'',
      WorkerRun True,
      BOHBInit (ObjV ''cs'') ''BOHB_optimization_seed_0''
       (StrV ''127.0.0.1'') (StrV ''127.0.0.1'') (IntV 9090) (IntV 3)
       (IntV 1) (IntV 27) ''out'',
      MasterRun (IntV 4), FixTimestamps (ObjV ''w0'') (IntV 100),
      FixTimestamps (ObjV ''w1'') (IntV 100),
      ResultInit [ObjV ''d0'', ObjV ''w0_fixed'', ObjV ''w1_fixed''] (ObjV ''configs''),
      LogInfo ''WALLCLOCK LIMIT REACHED'', MasterShutdown True, NsShutdown]\<rparr>) of
              (Inl e, s4) \<Rightarrow> (Inl e, s4)
            | (Inr u, s4) \<Rightarrow>
                (getitem (optimizer_settings (self demo_state)) ''output_dir'', s4))"
    by (simp add: slow_fakes_def demo_fakes_def)
  then show ?thesis by (simp add: rp od) (simp add: slow_fakes_def demo_fakes_def)
qed

text \<open>
  C6 (where the claim fails). With an adapter whose \<^verbatim>\<open>get_configuration_space()\<close>
  raises, constructing a \<^verbatim>\<open>SMACOptimizer\<close> with an unsupported intensifier raises the
  adapter's error, not the \<^verbatim>\<open>ValueError\<close>.
\<close>

theorem smac_init_unsupported_adapter_error:
  "SMACOptimizer_init adapter_failure_fakes (ObjV ''bench'') demo_settings
     demo_benchmark_settings (OTHER_MEMBER ''bohb'') (IntV 0) \<lparr>trace = []\<rparr> =
     (Inl (OtherException ''adapter failure''),
      \<lparr>trace = [GetConfigurationSpace (ObjV ''bench'')]\<rparr>)"
  by (simp add: SMACOptimizer_init_def Optimizer_init_def seq_def call_def ret_def raise_def
      adapter_failure_fakes_def demo_fakes_def)

text \<open>
  C6 (amended). Constructing a \<^verbatim>\<open>SMACOptimizer\<close> with an intensifier that is neither
  \<^verbatim>\<open>HYPERBAND\<close> nor \<^verbatim>\<open>SUCCESSIVE_HALVING\<close> fails at once and with none of these
  effects: no scenario is built, no engine is started, no process or resource is
  allocated. The error is the \<^verbatim>\<open>ValueError\<close> whenever the adapter's
  \<^verbatim>\<open>get_configuration_space()\<close>, called first by the base constructor, returns.
\<close>

theorem smac_init_unsupported_fails_before_engine:
  assumes "intens \<noteq> HYPERBAND" and "intens \<noteq> SUCCESSIVE_HALVING"
  shows "isl (fst (SMACOptimizer_init fk bench os bs intens r w)) \<and>
         \<not> list_ex starts_resource
             (drop (length (trace w))
                (trace (snd (SMACOptimizer_init fk bench os bs intens r w)))) \<and>
         (raises fk (trace w) (GetConfigurationSpace bench) = None \<longrightarrow>
            fst (SMACOptimizer_init fk bench os bs intens r w) =
              Inl (ValueError ''Currently no other intensifier is supported''))"
  using assms
  by (cases "raises fk (trace w) (GetConfigurationSpace bench)")
     (simp_all add: SMACOptimizer_init_def Optimizer_init_def seq_def call_def ret_def
        raise_def)

text \<open>The amended claim for the member \<open>OTHER_MEMBER bohb\<close> and an adapter that returns.\<close>

theorem smac_init_unsupported_fails_before_engine_witness:
  "OTHER_MEMBER ''bohb'' \<noteq> HYPERBAND \<and> OTHER_MEMBER ''bohb'' \<noteq> SUCCESSIVE_HALVING \<and>
   raises demo_fakes [] (GetConfigurationSpace (ObjV ''bench'')) = None \<and>
   fst (SMACOptimizer_init demo_fakes (ObjV ''bench'') demo_settings demo_benchmark_settings
          (OTHER_MEMBER ''bohb'') (IntV 0) \<lparr>trace = []\<rparr>) =
     Inl (ValueError ''Currently no other intensifier is supported'') \<and>
   \<not> list_ex starts_resource
       (trace (snd (SMACOptimizer_init demo_fakes (ObjV ''bench'') demo_settings
          demo_benchmark_settings (OTHER_MEMBER ''bohb'') (IntV 0) \<lparr>trace = []\<rparr>)))"
proof -
  have q: "raises demo_fakes (trace \<lparr>trace = []\<rparr>) (GetConfigurationSpace (ObjV ''bench'')) = None"
    by (simp add: demo_fakes_def)
  have a: "OTHER_MEMBER ''bohb'' \<noteq> HYPERBAND" and b: "OTHER_MEMBER ''bohb'' \<noteq> SUCCESSIVE_HALVING"
    by simp_all
  from smac_init_unsupported_fails_before_engine
         [OF a b, of demo_fakes "ObjV ''bench''" demo_settings demo_benchmark_settings
            "IntV 0" "\<lparr>trace = []\<rparr>"]
  show ?thesis using q by simp
qed

text \<open>
  C7 (where the claim fails). When the benchmark settings hold, as a pass-through key,
  the very name of the fidelity, the call of the adapter gets that keyword twice: the
  wrapper raises \<^verbatim>\<open>TypeError\<close> and \<^verbatim>\<open>objective_function\<close> is not invoked.
\<close>

theorem wrapper_repeated_keyword_raises:
  "optimization_function_wrapper demo_fakes (ObjV ''c1'') (IntV 0) NoneV (IntV 9) clash_state =
     (Inl (TypeError ''got multiple values for keyword argument''), clash_state) \<and>
   trace clash_state = []"
  by (simp add: optimization_function_wrapper_def seq_def bench_setting_def lift_def
      self_attr_def merge_kwargs_def getitem_def clash_state_def demo_self_def demo_fakes_def)

text \<open>
  C7 (amended). For every call \<open>(cfg, seed, instance, budget)\<close> of the objective wrapper
  in which the benchmark settings declare \<^verbatim>\<open>fidelity_type\<close> and a string
  \<^verbatim>\<open>fidelity_name\<close> that is not itself one of their keys, the declared type parses
  and coerces the budget to \<open>b\<close>, and the adapter returns a dictionary with a
  \<^verbatim>\<open>function_value\<close> entry \<open>v\<close>: the wrapper calls \<^verbatim>\<open>objective_function\<close> exactly
  once, with \<open>cfg\<close> and the keyword arguments made of \<open>b\<close> under the fidelity name and
  of all the benchmark settings, and returns \<open>v\<close>.
\<close>

theorem wrapper_calls_adapter_once:
  assumes "getitem (benchmark_settings (self s)) ''fidelity_type'' = Inr ft"
    and "parse_fidelity_type fk ft = Inr fidelity_type"
    and "getitem (benchmark_settings (self s)) ''fidelity_name'' = Inr (StrV name)"
    and "fidelity_type budget = Inr b"
    and "name \<notin> set (map fst (benchmark_settings (self s)))"
    and "raises fk (trace s) (ObjectiveFunction cfg ((name, b) # benchmark_settings (self s))) = None"
    and "getitem (objective_function fk cfg ((name, b) # benchmark_settings (self s)))
           ''function_value'' = Inr v"
  shows "optimization_function_wrapper fk cfg seed instance budget s =
           (Inr v, s\<lparr>trace := trace s @
              [ObjectiveFunction cfg ((name, b) # benchmark_settings (self s))]\<rparr>)"
  using assms
  by (simp add: optimization_function_wrapper_def seq_def bench_setting_def lift_def
      self_attr_def merge_kwargs_def call_def)

text \<open>
  The amended claim for a fidelity declared as a string: the budget \<open>9\<close> reaches the
  adapter as the string \<open>''9''\<close>.
\<close>

theorem wrapper_calls_adapter_once_witness:
  "optimization_function_wrapper demo_fakes (ObjV ''c1'') (IntV 0) NoneV (IntV 9) str_state =
     (Inr (IntV 3),
      str_state\<lparr>trace := [ObjectiveFunction (ObjV ''c1'')
         [(''subset'', StrV ''9''), (''fidelity_name'', StrV ''subset''),
          (''fidelity_type'', StrV ''str'')]]\<rparr>)"
proof -
  have bs: "benchmark_settings (self str_state) =
              [(''fidelity_name'', StrV ''subset''), (''fidelity_type'', StrV ''str'')]"
    by (simp add: str_state_def)
  have 1: "getitem (benchmark_settings (self str_state)) ''fidelity_type'' = Inr (StrV ''str'')"
    by (simp add: getitem_def bs)
  have 2: "parse_fidelity_type demo_fakes (StrV ''str'') =
             Inr (\<lambda>b. case b of IntV n \<Rightarrow> Inr (StrV (show_int n))
                         | StrV t \<Rightarrow> Inr (StrV t)
                         | _ \<Rightarrow> Inl (TypeError ''str() argument''))"
    by (simp add: demo_fakes_def)
  have 3: "getitem (benchmark_settings (self str_state)) ''fidelity_name'' = Inr (StrV ''subset'')"
    by (simp add: getitem_def bs)
  have 4: "(\<lambda>b. case b of IntV n \<Rightarrow> Inr (StrV (show_int n))
                         | StrV t \<Rightarrow> Inr (StrV t)
                         | _ \<Rightarrow> Inl (TypeError ''str() argument'')) (IntV 9) =
           (Inr (StrV ''9'') :: exn + val)"
    by (simp add: show_int_def show_nat.simps)
  have 5: "''subset'' \<notin> set (map fst (benchmark_settings (self str_state)))"
    by (simp add: bs)
  have 6: "raises demo_fakes (trace str_state)
             (ObjectiveFunction (ObjV ''c1'')
                ((''subset'', StrV ''9'') # benchmark_settings (self str_state))) = None"
    by (simp add: demo_fakes_def)
  have 7: "getitem (objective_function demo_fakes (ObjV ''c1'')
             ((''subset'', StrV ''9'') # benchmark_settings (self str_state)))
             ''function_value'' = Inr (IntV 3)"
    by (simp add: demo_fakes_def getitem_def)
  from wrapper_calls_adapter_once [OF 1 2 3 4 5 6 7, of "IntV 0" NoneV]
  show ?thesis by (simp add: bs) (simp add: str_state_def)
qed

text \<open>
  C8 (where the claim fails). With an engine that writes below the scenario's output
  directory, \<^verbatim>\<open>SMACOptimizer.run\<close> returns that run directory, which is not the
  configured \<^verbatim>\<open>output_dir\<close>.
\<close>

theorem smac_run_returns_engine_directory:
  "fst (smac_run demo_fakes demo_state) = Inr (PathV ''out/run_1'') \<and>
   getitem (optimizer_settings (self demo_state)) ''output_dir'' = Inr (PathV ''out'') \<and>
   fst (smac_run demo_fakes demo_state) \<noteq>
     getitem (optimizer_settings (self demo_state)) ''output_dir''"
proof -
  have g: "getitem (optimizer_settings (self demo_state)) ''output_dir'' = Inr (PathV ''out'')"
    by (simp add: getitem_def demo_state_def demo_self_def demo_settings_def)
  show ?thesis by (simp add: demo_smac_run g)
qed

text \<open>
  C8 (amended). A \<^verbatim>\<open>BOHBOptimizer.run\<close> that returns, returns the configured
  \<^verbatim>\<open>output_dir\<close>, and that is the directory of the engine's run log: the run began by
  creating the json result logger on \<^verbatim>\<open>str(output_dir)\<close> and handed it to the engine.
  A \<^verbatim>\<open>SMACOptimizer.run\<close> that returns, returns as a path the \<^verbatim>\<open>output_dir\<close>
  attribute of the engine, the engine having been built by this run from a scenario
  whose \<^verbatim>\<open>output_dir\<close> entry is \<^verbatim>\<open>str\<close> of the configured \<^verbatim>\<open>output_dir\<close>.
\<close>

theorem run_returns_output_location:
  "(bohb_run fk s = (Inr v, s') \<longrightarrow>
      getitem (optimizer_settings (self s)) ''output_dir'' = Inr v \<and>
      (\<exists>eta min_budget max_budget ext.
         trace s' = trace s @
           [JsonResultLogger (py_str fk v) True,
            NameServerInit (run_id (self s)) ''localhost'' (py_str fk v),
            NameServerStart,
            CustomWorkerInit (benchmark (self s)) (benchmark_settings (self s))
              (fst (ns_address fk)) (snd (ns_address fk)) (run_id (self s)),
            WorkerRun True,
            BOHBInit (cs (self s)) (run_id (self s)) (fst (ns_address fk))
              (fst (ns_address fk)) (snd (ns_address fk)) eta min_budget max_budget
              (py_str fk v)] @ ext)) \<and>
   (smac_run fk s = (Inr v, s') \<longrightarrow>
      (\<exists>sd od seed intens kwargs ext.
         v = py_Path (smac_output_dir fk sd) \<and>
         getitem (optimizer_settings (self s)) ''output_dir'' = Inr od \<and>
         getitem sd ''output_dir'' = Inr (StrV (py_str fk od)) \<and>
         trace s' = trace s @
           [ScenarioInit sd, RandomState seed, SMAC4HPOInit sd seed intens kwargs] @ ext))"
proof (intro conjI impI)
  assume a: "bohb_run fk s = (Inr v, s')"
  from bohb_run_Inr [OF a]
  show "getitem (optimizer_settings (self s)) ''output_dir'' = Inr v" by blast
  from bohb_run_Inr [OF a]
  show "\<exists>eta min_budget max_budget ext.
         trace s' = trace s @
           [JsonResultLogger (py_str fk v) True,
            NameServerInit (run_id (self s)) ''localhost'' (py_str fk v),
            NameServerStart,
            CustomWorkerInit (benchmark (self s)) (benchmark_settings (self s))
              (fst (ns_address fk)) (snd (ns_address fk)) (run_id (self s)),
            WorkerRun True,
            BOHBInit (cs (self s)) (run_id (self s)) (fst (ns_address fk))
              (fst (ns_address fk)) (snd (ns_address fk)) eta min_budget max_budget
              (py_str fk v)] @ ext"
    by blast
next
  assume "smac_run fk s = (Inr v, s')"
  then obtain sd s1 e1 where 1: "smac_setup fk s = (Inr sd, s1)"
    and 2: "v = py_Path (smac_output_dir fk sd)"
    and 3: "trace s' = trace s1 @ e1"
    using smac_run_Inr by blast
  from smac_setup_Inr [OF 1] obtain od seed intens kwargs
    where 4: "getitem (optimizer_settings (self s)) ''output_dir'' = Inr od"
      and 5: "getitem sd ''output_dir'' = Inr (StrV (py_str fk od))"
      and 6: "trace s1 = trace s @
                [ScenarioInit sd, RandomState seed, SMAC4HPOInit sd seed intens kwargs]"
    by blast
  from 3 6 have "trace s' = trace s @
                [ScenarioInit sd, RandomState seed, SMAC4HPOInit sd seed intens kwargs] @ e1"
    by simp
  with 2 4 5
  show "\<exists>sd od seed intens kwargs ext.
         v = py_Path (smac_output_dir fk sd) \<and>
         getitem (optimizer_settings (self s)) ''output_dir'' = Inr od \<and>
         getitem sd ''output_dir'' = Inr (StrV (py_str fk od)) \<and>
         trace s' = trace s @
           [ScenarioInit sd, RandomState seed, SMAC4HPOInit sd seed intens kwargs] @ ext"
    by blast
qed

text \<open>The amended claim at \<open>demo_fakes\<close>, where both runs return.\<close>

theorem run_returns_output_location_witness:
  "bohb_run demo_fakes demo_state = (Inr (PathV ''out''), snd (bohb_run demo_fakes demo_state)) \<and>
   getitem (optimizer_settings (self demo_state)) ''output_dir'' = Inr (PathV ''out'') \<and>
   (\<exists>ext. trace (snd (bohb_run demo_fakes demo_state)) =
      JsonResultLogger ''out'' True # ext) \<and>
   smac_run demo_fakes demo_state =
     (Inr (PathV ''out/run_1''), snd (smac_run demo_fakes demo_state)) \<and>
   (\<exists>sd od. PathV ''out/run_1'' = py_Path (smac_output_dir demo_fakes sd) \<and>
      getitem (optimizer_settings (self demo_state)) ''output_dir'' = Inr od \<and>
      getitem sd ''output_dir'' = Inr (StrV (py_str demo_fakes od)) \<and>
      (\<exists>ext. trace (snd (smac_run demo_fakes demo_state)) = ScenarioInit sd # ext))"
proof -
  have b: "bohb_run demo_fakes demo_state =
             (Inr (PathV ''out''), snd (bohb_run demo_fakes demo_state))"
    by (simp add: demo_bohb_run)
  have m: "smac_run demo_fakes demo_state =
             (Inr (PathV ''out/run_1''), snd (smac_run demo_fakes demo_state))"
    by (simp add: demo_smac_run)
  have t: "trace demo_state = []" by (simp add: demo_state_def)
  have p: "py_str demo_fakes (PathV ''out'') = ''out''" by (simp add: py_str_def)
  from run_returns_output_location
         [of demo_fakes demo_state "PathV ''out''" "snd (bohb_run demo_fakes demo_state)"] b
  have 1: "getitem (optimizer_settings (self demo_state)) ''output_dir'' = Inr (PathV ''out'')"
    and 2: "\<exists>ext. trace (snd (bohb_run demo_fakes demo_state)) =
              JsonResultLogger ''out'' True # ext"
    by (auto simp: t p)
  from run_returns_output_location
         [of demo_fakes demo_state "PathV ''out/run_1''" "snd (smac_run demo_fakes demo_state)"] m
  have 3: "\<exists>sd od. PathV ''out/run_1'' = py_Path (smac_output_dir demo_fakes sd) \<and>
      getitem (optimizer_settings (self demo_state)) ''output_dir'' = Inr od \<and>
      getitem sd ''output_dir'' = Inr (StrV (py_str demo_fakes od)) \<and>
      (\<exists>ext. trace (snd (smac_run demo_fakes demo_state)) = ScenarioInit sd # ext)"
    by (auto simp: t)
  from b m 1 2 3 show ?thesis by blast
qed

text \<open>
  C9. Whatever the collaborators do and on every exit path, \<^verbatim>\<open>BOHBOptimizer.run\<close> and
  \<^verbatim>\<open>SMACOptimizer.run\<close> leave \<^verbatim>\<open>self.optimizer_settings\<close> and
  \<^verbatim>\<open>self.benchmark_settings\<close> as they found them.
\<close>

theorem run_leaves_settings_unchanged:
  "optimizer_settings (self (snd (bohb_run fk s))) = optimizer_settings (self s) \<and>
   benchmark_settings (self (snd (bohb_run fk s))) = benchmark_settings (self s) \<and>
   optimizer_settings (self (snd (smac_run fk s))) = optimizer_settings (self s) \<and>
   benchmark_settings (self (snd (smac_run fk s))) = benchmark_settings (self s)"
  using keeps_self_bohb_run [of fk] keeps_self_smac_run [of fk]
  by (simp add: keeps_self_def)

text \<open>
  C10. \<^verbatim>\<open>SMACOptimizer.__init__\<close> calls the adapter's
  \<^verbatim>\<open>get_configuration_space()\<close> once, whatever the intensifier; an error of that call is
  the error of the construction, and only when it returned is an unsupported intensifier
  answered with the \<^verbatim>\<open>ValueError\<close>.
\<close>

theorem smac_init_calls_adapter_before_validation:
  assumes "SMACOptimizer_init fk bench os bs intens r w = (res, w')"
  shows "trace w' = trace w @ [GetConfigurationSpace bench] \<and>
         (raises fk (trace w) (GetConfigurationSpace bench) = Some e \<longrightarrow> res = Inl e) \<and>
         (raises fk (trace w) (GetConfigurationSpace bench) = None \<and>
          intens \<noteq> HYPERBAND \<and> intens \<noteq> SUCCESSIVE_HALVING \<longrightarrow>
          res = Inl (ValueError ''Currently no other intensifier is supported''))"
  using assms
  by (auto simp: SMACOptimizer_init_def Optimizer_init_def seq_def call_def ret_def raise_def
      split: option.splits if_splits)

text \<open>The claim for the member \<open>OTHER_MEMBER bohb\<close>.\<close>

theorem smac_init_calls_adapter_before_validation_witness:
  "SMACOptimizer_init demo_fakes (ObjV ''bench'') demo_settings demo_benchmark_settings
     (OTHER_MEMBER ''bohb'') (IntV 0) \<lparr>trace = []\<rparr> =
     (Inl (ValueError ''Currently no other intensifier is supported''),
      \<lparr>trace = [GetConfigurationSpace (ObjV ''bench'')]\<rparr>) \<and>
   raises demo_fakes [] (GetConfigurationSpace (ObjV ''bench'')) = None \<and>
   OTHER_MEMBER ''bohb'' \<noteq> HYPERBAND \<and> OTHER_MEMBER ''bohb'' \<noteq> SUCCESSIVE_HALVING"
proof -
  obtain res w' where run:
    "SMACOptimizer_init demo_fakes (ObjV ''bench'') demo_settings demo_benchmark_settings
       (OTHER_MEMBER ''bohb'') (IntV 0) \<lparr>trace = []\<rparr> = (res, w')"
    by (cases "SMACOptimizer_init demo_fakes (ObjV ''bench'') demo_settings
                 demo_benchmark_settings (OTHER_MEMBER ''bohb'') (IntV 0) \<lparr>trace = []\<rparr>")
  have q: "raises demo_fakes [] (GetConfigurationSpace (ObjV ''bench'')) = None"
    by (simp add: demo_fakes_def)
  from smac_init_calls_adapter_before_validation [OF run, of TimeoutException] q
  have "trace w' = [GetConfigurationSpace (ObjV ''bench'')]"
    and "res = Inl (ValueError ''Currently no other intensifier is supported'')"
    by simp_all
  with run q show ?thesis by simp
qed

end
